theory Spec2Isabelle
  imports Main "HOL-Library.AList"
begin

section \<open>Values, exceptions and the outside world\<close>

text \<open>
  Python values as they travel from a driver to the durable store: JSON-like scalars,
  the two driver-specific types the document adapter converts (\<open>bson.ObjectId\<close>,
  \<open>datetime\<close>), lists, and dicts as association lists in insertion order.
  An \<open>ObjectId\<close> carries the text \<open>str()\<close> gives for it, a \<open>datetime\<close> the text
  \<open>isoformat()\<close> gives for it. \<open>POther\<close> is a value of any other class a driver may
  return (\<open>Decimal\<close>, \<open>bytes\<close>, ...), by its \<open>repr\<close>.
\<close>

datatype pyval =
    PNone
  | PBool bool
  | PInt int
  | PStr string
  | PObjectId string
  | PDatetime string
  | POther string
  | PList "pyval list"
  | PDict "(string \<times> pyval) list"

type_synonym row = "(string \<times> pyval) list"

text \<open>
  The exceptions the modelled code raises or lets through. \<open>DBError\<close> is the class of
  \<open>db.py\<close>; it carries its message. \<open>OtherError\<close> is an exception of a driver that
  belongs to none of the classes the handlers of \<open>db.py\<close> name (for \<open>psycopg\<close>:
  \<open>DataError\<close>, \<open>IntegrityError\<close>, \<open>InternalError\<close>, ...), with its text. The Cyrillic
  message literals of the source are written transliterated.
\<close>

datatype exn =
    DBError string
  | AssertionError
  | JSONDecodeError
  | KeyError
  | IndexError
  | StopIteration
  | TypeError
  | OverflowError
  | OtherError string

definition msg_connect :: string where
  "msg_connect = ''Oshibka soedineniya s BD: ''"

definition msg_query :: string where
  "msg_query = ''Oshibka pri zaprose k BD: ''"

definition msg_reconnects :: string where
  "msg_reconnects = ''Prevysheno kolichetsvo popytok soedineniya s BD''"

text \<open>
  What a driver call can answer. Opening a connection succeeds, raises the driver's
  \<open>OperationalError\<close>, or raises an exception of another class (a malformed DSN, for
  example). A query gives its result, raises one of the exception classes the handlers
  of \<open>db.py\<close> name, or raises an exception of another class: \<open>psycopg\<close> returns rows as
  \<open>dict_row\<close> dicts; \<open>sqlite3\<close> returns the cursor's column names and the row tuples,
  or has no result set (\<open>cur.description\<close> is \<open>None\<close>); \<open>pymongo\<close> returns documents.
\<close>

datatype connect_outcome =
    Connected
  | ConnectOperationalError string
  | ConnectOtherError string

datatype pg_outcome =
    PgRows "row list"
  | PgOperationalError string
  | PgProgrammingError string
  | PgOtherError string

datatype lite_outcome =
    LiteRows "string list" "pyval list list"
  | LiteNoResultSet
  | LiteOperationalError string
  | LiteOtherError string

datatype mongo_outcome =
    MongoDocs "pyval list"
  | MongoServerSelectionTimeoutError string
  | MongoOtherError string

text \<open>
  The libraries and backends are parameters of the model. Each driver call is numbered by
  the tick at which it happens, so an \<open>env\<close> can describe any behaviour over time.
  The connect functions take what the adapter connects to (the DSN, the database file,
  the host); for \<open>MongoClient\<close>, which \<open>db.py\<close> calls outside any \<open>try\<close>, \<open>None\<close> is
  success and \<open>Some e\<close> an exception with text \<open>e\<close>.
  \<open>current_timestamp\<close> is the store's clock at a tick, \<open>py_int\<close> is Python's \<open>int()\<close>
  on a string (\<open>None\<close> is \<open>ValueError\<close>), \<open>json_loads_ok\<close> says whether
  \<open>json.loads\<close> accepts a text, \<open>MAX_QUEUE_SIZE\<close> is the configured queue bound.
\<close>

record env =
  psycopg_connect :: "string \<Rightarrow> nat \<Rightarrow> connect_outcome"
  psycopg_execute :: "nat \<Rightarrow> string \<Rightarrow> pg_outcome"
  sqlite3_connect :: "string \<Rightarrow> nat \<Rightarrow> connect_outcome"
  sqlite3_execute :: "nat \<Rightarrow> string \<Rightarrow> lite_outcome"
  mongo_client :: "string \<Rightarrow> nat \<Rightarrow> string option"
  mongo_find :: "nat \<Rightarrow> string \<Rightarrow> mongo_outcome"
  current_timestamp :: "nat \<Rightarrow> nat"
  json_loads_ok :: "string \<Rightarrow> bool"
  py_int :: "string \<Rightarrow> int option"
  MAX_QUEUE_SIZE :: int

text \<open>
  The effects on the outside world that the claims observe: the number of driver calls
  made so far, the handles of the connections opened and closed, and the number of
  \<open>time.sleep(5)\<close> calls. A handle is the tick of the call that opened it.
\<close>

record world =
  ticks :: nat
  opened_handles :: "nat list"
  closed_handles :: "nat list"
  sleeps :: nat

definition tick :: "world \<Rightarrow> world" where
  "tick w = w\<lparr>ticks := Suc (ticks w)\<rparr>"

definition open_handle :: "world \<Rightarrow> world" where
  "open_handle w = w\<lparr>ticks := Suc (ticks w), opened_handles := opened_handles w @ [ticks w]\<rparr>"

definition close_handle :: "nat \<Rightarrow> world \<Rightarrow> world" where
  "close_handle h w = w\<lparr>closed_handles := closed_handles w @ [h]\<rparr>"

section \<open>The adapters of db.py\<close>

subsection \<open>PostgresDB\<close>

record PostgresDB =
  dsn :: string
  pg_connection :: "nat option"
  reconnects :: int

definition pg_connect :: "env \<Rightarrow> PostgresDB \<times> world \<Rightarrow> (exn + unit) \<times> PostgresDB \<times> world" where
  "pg_connect E s =
     (case s of (d, w) \<Rightarrow>
        if pg_connection d \<noteq> None then (Inr (), d, w)
        else (case psycopg_connect E (dsn d) (ticks w) of
                ConnectOperationalError e \<Rightarrow> (Inl (DBError (msg_connect @ e)), d, tick w)
              | ConnectOtherError e \<Rightarrow> (Inl (OtherError e), d, tick w)
              | Connected \<Rightarrow>
                  (Inr (), d\<lparr>pg_connection := Some (ticks w), reconnects := 0\<rparr>, open_handle w)))"

definition pg_reconnect :: "env \<Rightarrow> PostgresDB \<times> world \<Rightarrow> (exn + unit) \<times> PostgresDB \<times> world" where
  "pg_reconnect E s =
     (case s of (d, w) \<Rightarrow>
        if reconnects d > 3 then (Inl (DBError msg_reconnects), d, w)
        else (case pg_connect E (d, w\<lparr>sleeps := Suc (sleeps w)\<rparr>) of
                (Inl e, d', w') \<Rightarrow> (Inl e, d', w')
              | (Inr u, d', w') \<Rightarrow> (Inr (), d'\<lparr>reconnects := reconnects d' + 1\<rparr>, w')))"

text \<open>
  \<open>fetchmany\<close> calls itself after a reconnect and after finding the connection closed,
  with nothing that bounds the number of calls: the fuel is the number of nested calls
  allowed, and \<open>None\<close> says that they were used up before the call returned or raised.
\<close>

fun pg_fetchmany ::
  "nat \<Rightarrow> env \<Rightarrow> string \<Rightarrow> int \<Rightarrow> PostgresDB \<times> world \<Rightarrow>
     ((exn + row list) \<times> PostgresDB \<times> world) option" where
  "pg_fetchmany 0 E query sz s = None"
| "pg_fetchmany (Suc n) E query sz (d, w) =
     (if pg_connection d = None then
        (case pg_reconnect E (d, w) of
           (Inl e, d', w') \<Rightarrow> Some (Inl e, d', w')
         | (Inr u, d', w') \<Rightarrow> pg_fetchmany n E query sz (d', w'))
      else
        (case psycopg_execute E (ticks w) query of
           PgRows rows \<Rightarrow> Some (Inr (take (nat sz) rows), d, tick w)
         | PgOperationalError e \<Rightarrow>
             if e = ''the connection is closed''
             then pg_fetchmany n E query sz (d\<lparr>pg_connection := None\<rparr>, tick w)
             else Some (Inl (DBError (msg_query @ e)), d, tick w)
         | PgProgrammingError e \<Rightarrow> Some (Inl (DBError (msg_query @ e)), d, tick w)
         | PgOtherError e \<Rightarrow> Some (Inl (OtherError e), d, tick w)))"

definition pg_close :: "PostgresDB \<times> world \<Rightarrow> PostgresDB \<times> world" where
  "pg_close s =
     (case s of (d, w) \<Rightarrow>
        (case pg_connection d of
           Some h \<Rightarrow> (d\<lparr>pg_connection := None\<rparr>, close_handle h w)
         | None \<Rightarrow> (d, w)))"

subsection \<open>MongoDB\<close>

record MongoDB =
  host :: string
  mongo_db :: string
  collection :: string
  client :: "nat option"

definition mongo_connect :: "env \<Rightarrow> MongoDB \<times> world \<Rightarrow> (exn + unit) \<times> MongoDB \<times> world" where
  "mongo_connect E s =
     (case s of (d, w) \<Rightarrow>
        if client d \<noteq> None then (Inr (), d, w)
        else (case mongo_client E (host d) (ticks w) of
                Some e \<Rightarrow> (Inl (OtherError e), d, tick w)
              | None \<Rightarrow> (Inr (), d\<lparr>client := Some (ticks w)\<rparr>, open_handle w)))"

fun to_serializable :: "pyval \<Rightarrow> pyval" where
  "to_serializable (PDict kvs) = PDict (map (\<lambda>(k, v). (k, to_serializable v)) kvs)"
| "to_serializable (PObjectId s) = PStr s"
| "to_serializable (PDatetime s) = PStr s"
| "to_serializable v = v"

text \<open>
  A document of the payload is a dict; \<open>as_row\<close> reads a converted document as one.
  (The driver yields dicts only, and \<open>to_serializable\<close> maps dicts to dicts.)
\<close>

fun as_row :: "pyval \<Rightarrow> row" where
  "as_row (PDict kvs) = kvs"
| "as_row v = []"

definition mongo_fetchmany ::
  "env \<Rightarrow> string \<Rightarrow> int \<Rightarrow> MongoDB \<times> world \<Rightarrow> (exn + pyval list) \<times> MongoDB \<times> world" where
  "mongo_fetchmany E query sz s =
     (case s of (d, w) \<Rightarrow>
        if client d = None then (Inl AssertionError, d, w)
        else if \<not> json_loads_ok E query then (Inl JSONDecodeError, d, w)
        else (case mongo_find E (ticks w) query of
                MongoDocs docs \<Rightarrow> (Inr (map to_serializable (take (nat sz) docs)), d, tick w)
              | MongoServerSelectionTimeoutError e \<Rightarrow>
                  (Inl (DBError (msg_query @ e)), d, tick w)
              | MongoOtherError e \<Rightarrow> (Inl (OtherError e), d, tick w)))"

definition mongo_close :: "MongoDB \<times> world \<Rightarrow> MongoDB \<times> world" where
  "mongo_close s =
     (case s of (d, w) \<Rightarrow>
        (case client d of
           Some h \<Rightarrow> (d\<lparr>client := None\<rparr>, close_handle h w)
         | None \<Rightarrow> (d, w)))"

subsection \<open>SQLiteDB\<close>

record SQLiteDB =
  database :: string
  lite_connection :: "nat option"

definition lite_connect :: "env \<Rightarrow> SQLiteDB \<times> world \<Rightarrow> (exn + unit) \<times> SQLiteDB \<times> world" where
  "lite_connect E s =
     (case s of (d, w) \<Rightarrow>
        if lite_connection d \<noteq> None then (Inr (), d, w)
        else (case sqlite3_connect E (database d) (ticks w) of
                ConnectOperationalError e \<Rightarrow> (Inl (DBError (msg_connect @ e)), d, tick w)
              | ConnectOtherError e \<Rightarrow> (Inl (OtherError e), d, tick w)
              | Connected \<Rightarrow>
                  (Inr (), d\<lparr>lite_connection := Some (ticks w)\<rparr>, open_handle w)))"

definition lite_close :: "SQLiteDB \<times> world \<Rightarrow> SQLiteDB \<times> world" where
  "lite_close s =
     (case s of (d, w) \<Rightarrow>
        (case lite_connection d of
           Some h \<Rightarrow> (d\<lparr>lite_connection := None\<rparr>, close_handle h w)
         | None \<Rightarrow> (d, w)))"

text \<open>Python's \<open>dict(pairs)\<close>: a later pair with a key already present replaces its value.\<close>

definition py_dict :: "(string \<times> pyval) list \<Rightarrow> row" where
  "py_dict pairs = foldl (\<lambda>d (k, v). AList.update k v d) [] pairs"

text \<open>\<open>cursor.fetchmany(size)\<close> of \<open>sqlite3\<close> takes a C \<open>int\<close>: a size outside its
  range raises \<open>OverflowError\<close>.\<close>

definition c_int_range :: "int \<Rightarrow> bool" where
  "c_int_range n = (- (2 ^ 31) \<le> n \<and> n < 2 ^ 31)"

text \<open>
  The part of \<open>fetchmany\<close> that runs with a connection: the second \<open>try\<close> and its
  \<open>finally\<close>, which closes the connection whatever happened. After \<open>execute\<close>,
  \<open>fetchmany(size)\<close> is called before \<open>cur.description\<close> is read, and iterating over
  a \<open>description\<close> that is \<open>None\<close> raises \<open>TypeError\<close>; only \<open>OperationalError\<close> is
  turned into \<open>DBError\<close>. (Every task carries a limit of at least 1; what the drivers do
  with a smaller one is not part of the model.)
\<close>

definition lite_fetch_connected ::
  "env \<Rightarrow> string \<Rightarrow> int \<Rightarrow> SQLiteDB \<times> world \<Rightarrow> (exn + row list) \<times> SQLiteDB \<times> world" where
  "lite_fetch_connected E query sz s =
     (case s of (d, w) \<Rightarrow>
        (case lite_close (d, tick w) of (d', w') \<Rightarrow>
           (case sqlite3_execute E (ticks w) query of
              LiteRows cols rows \<Rightarrow>
                if \<not> c_int_range sz then (Inl OverflowError, d', w')
                else (Inr (map (\<lambda>r. py_dict (zip cols r)) (take (nat sz) rows)), d', w')
            | LiteNoResultSet \<Rightarrow>
                if \<not> c_int_range sz then (Inl OverflowError, d', w')
                else (Inl TypeError, d', w')
            | LiteOperationalError e \<Rightarrow> (Inl (DBError (msg_query @ e)), d', w')
            | LiteOtherError e \<Rightarrow> (Inl (OtherError e), d', w'))))"

text \<open>
  Without a connection \<open>fetchmany\<close> connects and calls itself; that inner call finds the
  connection just made, so the recursion is one call deep and is written out.
\<close>

definition lite_fetchmany ::
  "env \<Rightarrow> string \<Rightarrow> int \<Rightarrow> SQLiteDB \<times> world \<Rightarrow> (exn + row list) \<times> SQLiteDB \<times> world" where
  "lite_fetchmany E query sz s =
     (case s of (d, w) \<Rightarrow>
        if lite_connection d = None then
          (case lite_connect E (d, w) of
             (Inl e, d', w') \<Rightarrow> (Inl e, d', w')
           | (Inr u, d', w') \<Rightarrow> lite_fetch_connected E query sz (d', w'))
        else lite_fetch_connected E query sz (d, w))"

subsection \<open>The DB protocol\<close>

datatype adapter = Postgres PostgresDB | Mongo MongoDB | SQLite SQLiteDB

fun db_connect :: "env \<Rightarrow> adapter \<times> world \<Rightarrow> (exn + unit) \<times> adapter \<times> world" where
  "db_connect E (Postgres d, w) = (case pg_connect E (d, w) of (r, d', w') \<Rightarrow> (r, Postgres d', w'))"
| "db_connect E (Mongo d, w) = (case mongo_connect E (d, w) of (r, d', w') \<Rightarrow> (r, Mongo d', w'))"
| "db_connect E (SQLite d, w) = (case lite_connect E (d, w) of (r, d', w') \<Rightarrow> (r, SQLite d', w'))"

fun db_fetchmany ::
  "nat \<Rightarrow> env \<Rightarrow> string \<Rightarrow> int \<Rightarrow> adapter \<times> world \<Rightarrow>
     ((exn + row list) \<times> adapter \<times> world) option" where
  "db_fetchmany fuel E query sz (Postgres d, w) =
     (case pg_fetchmany fuel E query sz (d, w) of
        None \<Rightarrow> None
      | Some (r, d', w') \<Rightarrow> Some (r, Postgres d', w'))"
| "db_fetchmany fuel E query sz (Mongo d, w) =
     (case mongo_fetchmany E query sz (d, w) of
        (Inl e, d', w') \<Rightarrow> Some (Inl e, Mongo d', w')
      | (Inr docs, d', w') \<Rightarrow> Some (Inr (map as_row docs), Mongo d', w'))"
| "db_fetchmany fuel E query sz (SQLite d, w) =
     (case lite_fetchmany E query sz (d, w) of (r, d', w') \<Rightarrow> Some (r, SQLite d', w'))"

fun db_close :: "adapter \<times> world \<Rightarrow> adapter \<times> world" where
  "db_close (Postgres d, w) = (case pg_close (d, w) of (d', w') \<Rightarrow> (Postgres d', w'))"
| "db_close (Mongo d, w) = (case mongo_close (d, w) of (d', w') \<Rightarrow> (Mongo d', w'))"
| "db_close (SQLite d, w) = (case lite_close (d, w) of (d', w') \<Rightarrow> (SQLite d', w'))"

fun handle_of :: "adapter \<Rightarrow> nat option" where
  "handle_of (Postgres d) = pg_connection d"
| "handle_of (Mongo d) = client d"
| "handle_of (SQLite d) = lite_connection d"

section \<open>The durable store\<close>

datatype Syntax = SQL | MONGO

text \<open>The two tables of \<open>Storage.setup\<close>. The payload column holds the records that
  \<open>json.dumps\<close> has encoded and \<open>json.loads\<close> reads back.\<close>

record user_query_row =
  uq_id :: int
  uq_stands_number :: int
  uq_syntax :: Syntax
  uq_created_at :: nat
  uq_content :: string

record query_result_row =
  qr_id :: int
  qr_query_id :: int
  qr_is_error :: int
  qr_stand_name :: string
  qr_result_json :: "row list"

record store =
  tbl_user_query :: "user_query_row list"
  tbl_query_result :: "query_result_row list"

text \<open>An \<open>INTEGER PRIMARY KEY\<close> column left out of an insert gets one more than the
  largest id of the table (1 in an empty table).\<close>

definition next_id :: "int list \<Rightarrow> int" where
  "next_id ids = foldr max ids 0 + 1"

text \<open>
  \<open>Storage\<close> is a \<open>SQLiteDB\<close> on the file \<open>internal.db\<close>: the handle is a \<open>SQLiteDB\<close>
  value, the file's contents a \<open>store\<close>. Every method asserts the connection first.
\<close>

definition INTERNAL_DB :: string where
  "INTERNAL_DB = ''internal.db''"

definition Storage :: "string \<Rightarrow> SQLiteDB" where
  "Storage file = \<lparr>database = file, lite_connection = None\<rparr>"

definition save_query ::
  "SQLiteDB \<Rightarrow> nat \<Rightarrow> Syntax \<Rightarrow> string \<Rightarrow> int \<Rightarrow> store \<Rightarrow> exn + (int \<times> store)" where
  "save_query self now sx query stands_number st =
     (if lite_connection self = None then Inl AssertionError
      else (let query_id = next_id (map uq_id (tbl_user_query st))
            in Inr (query_id,
                    st\<lparr>tbl_user_query := tbl_user_query st @
                         [\<lparr>uq_id = query_id, uq_stands_number = stands_number, uq_syntax = sx,
                           uq_created_at = now, uq_content = query\<rparr>]\<rparr>)))"

text \<open>
  \<open>json.dumps\<close> encodes \<open>None\<close>, booleans, numbers, strings, lists and dicts with string
  keys; for a value of any other class it raises \<open>TypeError\<close>.
\<close>

fun json_serializable :: "pyval \<Rightarrow> bool" where
  "json_serializable (PList xs) = list_all json_serializable xs"
| "json_serializable (PDict kvs) = list_all (\<lambda>kv. json_serializable (snd kv)) kvs"
| "json_serializable (PObjectId s) = False"
| "json_serializable (PDatetime s) = False"
| "json_serializable (POther s) = False"
| "json_serializable v = True"

definition json_dumps_ok :: "row list \<Rightarrow> bool" where
  "json_dumps_ok result = list_all (\<lambda>r. list_all (\<lambda>kv. json_serializable (snd kv)) r) result"

definition save_result ::
  "SQLiteDB \<Rightarrow> int \<Rightarrow> int \<Rightarrow> string \<Rightarrow> row list \<Rightarrow> store \<Rightarrow> exn + store" where
  "save_result self query_id is_error stand_name result st =
     (if lite_connection self = None then Inl AssertionError
      else if \<not> json_dumps_ok result then Inl TypeError
      else Inr (st\<lparr>tbl_query_result := tbl_query_result st @
                     [\<lparr>qr_id = next_id (map qr_id (tbl_query_result st)), qr_query_id = query_id,
                       qr_is_error = is_error, qr_stand_name = stand_name,
                       qr_result_json = result\<rparr>]\<rparr>))"

definition mark_incomplete :: "SQLiteDB \<Rightarrow> int \<Rightarrow> store \<Rightarrow> exn + store" where
  "mark_incomplete self query_id st =
     (if lite_connection self = None then Inl AssertionError
      else Inr (st\<lparr>tbl_user_query :=
                     map (\<lambda>r. if uq_id r = query_id then r\<lparr>uq_stands_number := - 1\<rparr> else r)
                       (tbl_user_query st)\<rparr>))"

definition results_by_query_id :: "SQLiteDB \<Rightarrow> int \<Rightarrow> store \<Rightarrow> exn + (string \<times> row list) list" where
  "results_by_query_id self query_id st =
     (if lite_connection self = None then Inl AssertionError
      else Inr (map (\<lambda>r. (qr_stand_name r, qr_result_json r))
                  (filter (\<lambda>r. qr_query_id r = query_id) (tbl_query_result st))))"

definition query_by_id :: "SQLiteDB \<Rightarrow> int \<Rightarrow> store \<Rightarrow> exn + (Syntax \<times> string) option" where
  "query_by_id self query_id st =
     (if lite_connection self = None then Inl AssertionError
      else Inr (map_option (\<lambda>r. (uq_syntax r, uq_content r))
                  (find (\<lambda>r. uq_id r = query_id) (tbl_user_query st))))"

subsection \<open>latest_queries\<close>













section \<open>main.py: stands, tasks and the window's state\<close>

record Stand =
  name :: string
  vendor :: string
  stand_syntax :: Syntax
  db :: adapter
  checkbox :: bool

record QueryTask =
  qt_stand_name :: string
  qt_query_id :: int
  qt_query :: string
  qt_size :: int

text \<open>The message boxes shown to the user, one constructor per text of the source.\<close>

datatype message =
    Error_fill_query
  | Error_mixed_syntaxes
  | Error_syntax_differs
  | Error_data_editing
  | Error_schema_editing
  | Error_truncate
  | Error_bad_json
  | Error_fill_limit
  | Error_limit_not_positive
  | Error_select_stands
  | Info_queue_full

text \<open>
  The module's globals and the widgets \<open>create_tasks\<close> reads: the dict \<open>stands\<close> in
  insertion order, the queue \<open>q\<close>, the file behind \<open>Storage\<close>, the handle \<open>Wgui.storage\<close>,
  the limit entry, the query text as \<open>entry.get("1.0", tk.END)\<close> returns it, the chosen
  radio button, the message boxes shown so far and the outside world.
\<close>

record app =
  stands :: "(string \<times> Stand) list"
  q_tasks :: "QueryTask list"
  internal_db :: store
  wgui_storage :: SQLiteDB
  fetch_size :: string
  entry :: string
  highlight_choice :: Syntax
  messages :: "message list"
  outside :: world

subsection \<open>Text helpers\<close>

text \<open>
  The query text is taken to be ASCII, with a character for each code point below 256:
  \<open>str.strip\<close> removes the characters for which \<open>str.isspace\<close> holds, and \<open>casefold\<close>
  lower-cases the letters A to Z.
\<close>

definition whitespace :: "char list" where
  "whitespace = [CHR 0x09, CHR 0x0A, CHR 0x0B, CHR 0x0C, CHR 0x0D, CHR 0x1C, CHR 0x1D,
                 CHR 0x1E, CHR 0x1F, CHR 0x20, CHR 0x85, CHR 0xA0]"

definition py_isspace :: "char \<Rightarrow> bool" where
  "py_isspace c = (c \<in> set whitespace)"

definition strip :: "string \<Rightarrow> string" where
  "strip s = rev (dropWhile py_isspace (rev (dropWhile py_isspace s)))"

definition casefold_char :: "char \<Rightarrow> char" where
  "casefold_char c =
     (case map_of (zip ''ABCDEFGHIJKLMNOPQRSTUVWXYZ'' ''abcdefghijklmnopqrstuvwxyz'') c of
        Some l \<Rightarrow> l
      | None \<Rightarrow> c)"

definition casefold :: "string \<Rightarrow> string" where
  "casefold s = map casefold_char s"

definition startswith :: "string \<Rightarrow> string \<Rightarrow> bool" where
  "startswith s p = (take (length p) s = p)"

subsection \<open>Validation\<close>

definition is_positive_int :: "env \<Rightarrow> string \<Rightarrow> bool" where
  "is_positive_int E entry_value =
     (case py_int E entry_value of
        None \<Rightarrow> False
      | Some n \<Rightarrow> if n < 1 then False else True)"

definition get_fetch_size :: "env \<Rightarrow> app \<Rightarrow> int \<times> message list" where
  "get_fetch_size E a =
     (let user_fetch_size = fetch_size a
      in if user_fetch_size = [] then (- 1, [Error_fill_limit])
         else if \<not> is_positive_int E user_fetch_size then (- 1, [Error_limit_not_positive])
         else (case py_int E user_fetch_size of Some n \<Rightarrow> (n, []) | None \<Rightarrow> (- 1, [])))"

text \<open>
  The statement check of \<open>is_valid_entry\<close> for SQL, on the first nine characters:
  the message shown when the text is refused.
\<close>

definition sql_statement_check :: "string \<Rightarrow> message option" where
  "sql_statement_check user_entry =
     (let entry_slice = casefold (take 9 user_entry)
      in if startswith entry_slice ''insert '' \<or> startswith entry_slice ''update ''
            \<or> startswith entry_slice ''delete ''
         then Some Error_data_editing
         else if startswith entry_slice ''drop '' \<or> startswith entry_slice ''alter ''
            \<or> startswith entry_slice ''create '' \<or> startswith entry_slice ''comment ''
         then Some Error_schema_editing
         else if entry_slice = ''truncate '' then Some Error_truncate
         else None)"

text \<open>\<open>stands[selected].syntax\<close> for each selected name; \<open>None\<close> is a \<open>KeyError\<close>.\<close>

definition selected_syntaxes :: "(string \<times> Stand) list \<Rightarrow> string list \<Rightarrow> Syntax list option" where
  "selected_syntaxes sts selected_stands =
     those (map (\<lambda>selected. map_option stand_syntax (map_of sts selected)) selected_stands)"

definition is_valid_entry ::
  "env \<Rightarrow> (string \<times> Stand) list \<Rightarrow> Syntax \<Rightarrow> string \<Rightarrow> string list \<Rightarrow>
     exn + (bool \<times> message list)" where
  "is_valid_entry E sts chosen_syntax user_entry selected_stands =
     (if length user_entry = 0 then Inr (False, [Error_fill_query])
      else (case selected_syntaxes sts selected_stands of
              None \<Rightarrow> Inl KeyError
            | Some sx \<Rightarrow>
                if card (set sx) > 1 then Inr (False, [Error_mixed_syntaxes])
                else if chosen_syntax \<notin> set sx then Inr (False, [Error_syntax_differs])
                else (case chosen_syntax of
                        SQL \<Rightarrow>
                          (case sql_statement_check user_entry of
                             Some m \<Rightarrow> Inr (False, [m])
                           | None \<Rightarrow> Inr (True, []))
                      | MONGO \<Rightarrow>
                          if \<not> json_loads_ok E user_entry then Inr (False, [Error_bad_json])
                          else Inr (True, []))))"

definition get_user_entry :: "env \<Rightarrow> app \<Rightarrow> string list \<Rightarrow> exn + (string \<times> message list)" where
  "get_user_entry E a selected_stands =
     (let user_entry = strip (entry a)
      in (case is_valid_entry E (stands a) (highlight_choice a) user_entry selected_stands of
            Inl e \<Rightarrow> Inl e
          | Inr (ok, ms) \<Rightarrow> if \<not> ok then Inr ([], ms) else Inr (user_entry, ms)))"

subsection \<open>create_tasks\<close>

text \<open>
  The loop over the selected stands. Nothing takes tasks off the queue while it runs:
  the workers are not part of this function.
\<close>

fun enqueue_tasks :: "env \<Rightarrow> int \<Rightarrow> string \<Rightarrow> int \<Rightarrow> string list \<Rightarrow> app \<Rightarrow> exn + app" where
  "enqueue_tasks E query_id user_query user_fetch_size [] a = Inr a"
| "enqueue_tasks E query_id user_query user_fetch_size (stand_name # rest) a =
     (if int (length (q_tasks a)) < MAX_QUEUE_SIZE E
      then enqueue_tasks E query_id user_query user_fetch_size rest
             (a\<lparr>q_tasks := q_tasks a @
                  [\<lparr>qt_stand_name = stand_name, qt_query_id = query_id,
                    qt_query = user_query, qt_size = user_fetch_size\<rparr>]\<rparr>)
      else (case mark_incomplete (wgui_storage a) query_id (internal_db a) of
              Inl e \<Rightarrow> Inl e
            | Inr st \<Rightarrow> Inr (a\<lparr>internal_db := st, messages := messages a @ [Info_queue_full]\<rparr>)))"

definition selected_names :: "app \<Rightarrow> string list" where
  "selected_names a = map name (filter checkbox (map snd (stands a)))"

definition create_tasks :: "env \<Rightarrow> app \<Rightarrow> exn + app" where
  "create_tasks E a =
     (case get_fetch_size E a of (user_fetch_size, ms1) \<Rightarrow>
        if user_fetch_size < 1 then Inr (a\<lparr>messages := messages a @ ms1\<rparr>)
        else (let selected_stands = selected_names a
              in if selected_stands = []
                 then Inr (a\<lparr>messages := messages a @ ms1 @ [Error_select_stands]\<rparr>)
                 else (case get_user_entry E a selected_stands of
                         Inl e \<Rightarrow> Inl e
                       | Inr (user_query, ms2) \<Rightarrow>
                           if user_query = [] then Inr (a\<lparr>messages := messages a @ ms1 @ ms2\<rparr>)
                           else (case save_query (wgui_storage a)
                                        (current_timestamp E (ticks (outside a)))
                                        (highlight_choice a) user_query
                                        (int (length selected_stands)) (internal_db a) of
                                   Inl e \<Rightarrow> Inl e
                                 | Inr (query_id, st) \<Rightarrow>
                                     enqueue_tasks E query_id user_query user_fetch_size
                                       selected_stands
                                       (a\<lparr>internal_db := st,
                                          messages := messages a @ ms1 @ ms2\<rparr>)))))"

subsection \<open>execute_query\<close>

text \<open>The last four lines of \<open>execute_query\<close>: a fresh \<open>Storage\<close>, connected, written, closed.\<close>

definition store_result ::
  "env \<Rightarrow> QueryTask \<Rightarrow> int \<Rightarrow> row list \<Rightarrow> app \<Rightarrow> (exn + unit) \<times> app" where
  "store_result E task is_error result a =
     (case lite_connect E (Storage INTERNAL_DB, outside a) of
        (Inl e, storage, w) \<Rightarrow> (Inl e, a\<lparr>outside := w\<rparr>)
      | (Inr u, storage, w) \<Rightarrow>
          (case save_result storage (qt_query_id task) is_error (qt_stand_name task) result
                  (internal_db a) of
             Inl e \<Rightarrow> (Inl e, a\<lparr>outside := w\<rparr>)
           | Inr st \<Rightarrow>
               (case lite_close (storage, w) of
                  (storage', w') \<Rightarrow> (Inr (), a\<lparr>internal_db := st, outside := w'\<rparr>))))"

definition set_db :: "string \<Rightarrow> Stand \<Rightarrow> adapter \<Rightarrow> world \<Rightarrow> app \<Rightarrow> app" where
  "set_db key stand d w a =
     a\<lparr>stands := AList.update key (stand\<lparr>db := d\<rparr>) (stands a), outside := w\<rparr>"

definition error_result :: "string \<Rightarrow> row list" where
  "error_result m = [[(''error'', PStr m)]]"

definition execute_query :: "nat \<Rightarrow> env \<Rightarrow> QueryTask \<Rightarrow> app \<Rightarrow> ((exn + unit) \<times> app) option" where
  "execute_query fuel E task a =
     (case map_of (stands a) (qt_stand_name task) of
        None \<Rightarrow> Some (Inl KeyError, a)
      | Some stand \<Rightarrow>
          (case db_connect E (db stand, outside a) of
             (Inl (DBError m), d, w) \<Rightarrow>
               Some (store_result E task 1 (error_result m)
                       (set_db (qt_stand_name task) stand d w a))
           | (Inl e, d, w) \<Rightarrow> Some (Inl e, set_db (qt_stand_name task) stand d w a)
           | (Inr u, d, w) \<Rightarrow>
               (case db_fetchmany fuel E (qt_query task) (qt_size task) (d, w) of
                  None \<Rightarrow> None
                | Some (Inr result, d', w') \<Rightarrow>
                    Some (store_result E task 0 result
                            (set_db (qt_stand_name task) stand d' w' a))
                | Some (Inl (DBError m), d', w') \<Rightarrow>
                    Some (store_result E task 1 (error_result m)
                            (set_db (qt_stand_name task) stand d' w' a))
                | Some (Inl e, d', w') \<Rightarrow>
                    Some (Inl e, set_db (qt_stand_name task) stand d' w' a))))"

subsection \<open>make_pivot and export_result\<close>

text \<open>One element of the list comprehension of \<open>make_pivot\<close>:
  \<open>(r[0], next(iter(r[1][0].values())))\<close>.\<close>

fun pivot_row :: "string \<times> row list \<Rightarrow> exn + (string \<times> pyval)" where
  "pivot_row (stand, []) = Inl IndexError"
| "pivot_row (stand, [] # rest) = Inl StopIteration"
| "pivot_row (stand, ((k, v) # others) # rest) = Inr (stand, v)"

fun pivot_rows :: "(string \<times> row list) list \<Rightarrow> exn + (string \<times> pyval) list" where
  "pivot_rows [] = Inr []"
| "pivot_rows (r # rs) =
     (case pivot_row r of
        Inl e \<Rightarrow> Inl e
      | Inr x \<Rightarrow> (case pivot_rows rs of Inl e \<Rightarrow> Inl e | Inr xs \<Rightarrow> Inr (x # xs)))"

definition make_pivot :: "(string \<times> row list) list \<Rightarrow> exn + (string \<times> pyval) list option" where
  "make_pivot results =
     (case results of
        [] \<Rightarrow> Inr None
      | (stand, recs) # rest \<Rightarrow>
          (case recs of
             [r] \<Rightarrow>
               if length r = 1
               then (case pivot_rows results of Inl e \<Rightarrow> Inl e | Inr p \<Rightarrow> Inr (Some p))
               else Inr None
           | _ \<Rightarrow> Inr None))"

text \<open>
  The workbook as the sheets added to it, with the data each is handed: the query sheet,
  the pivot sheet, a table sheet per stand (header cells, then the values of each record)
  and, for Mongo, a sheet per stand of (\<open>_id\<close>, record) lines.
\<close>

datatype sheet =
    QuerySheet string
  | PivotSheet "(string \<times> pyval) list"
  | TableSheet string "string list" "pyval list list"
  | DocSheet string "(pyval \<times> row) list"

definition table_sheet :: "string \<times> row list \<Rightarrow> sheet" where
  "table_sheet r =
     (case r of (sheet_name, rows) \<Rightarrow>
        TableSheet sheet_name
          (case rows of [] \<Rightarrow> [''Dannye otsutstvuyut''] | r0 # rest \<Rightarrow> map fst r0)
          (map (map snd) rows))"

definition doc_sheet :: "string \<times> row list \<Rightarrow> sheet" where
  "doc_sheet r =
     (case r of (sheet_name, rows) \<Rightarrow>
        DocSheet sheet_name
          (map (\<lambda>row_data. (case map_of row_data ''_id'' of None \<Rightarrow> PNone | Some v \<Rightarrow> v,
                             row_data)) rows))"

definition export_result :: "SQLiteDB \<Rightarrow> store \<Rightarrow> int \<Rightarrow> exn + sheet list" where
  "export_result storage st query_id =
     (case results_by_query_id storage query_id st of
        Inl e \<Rightarrow> Inl e
      | Inr results \<Rightarrow>
          (case query_by_id storage query_id st of
             Inl e \<Rightarrow> Inl e
           | Inr None \<Rightarrow> Inl TypeError
           | Inr (Some (query_syntax, query_content)) \<Rightarrow>
               (case query_syntax of
                  SQL \<Rightarrow>
                    (case make_pivot results of
                       Inl e \<Rightarrow> Inl e
                     | Inr None \<Rightarrow> Inr (QuerySheet query_content # map table_sheet results)
                     | Inr (Some pivot) \<Rightarrow>
                         if pivot = []
                         then Inr (QuerySheet query_content # map table_sheet results)
                         else Inr (QuerySheet query_content # PivotSheet pivot
                                     # map table_sheet results))
                | MONGO \<Rightarrow> Inr (QuerySheet query_content # map doc_sheet results))))"

section \<open>Notions used in the statements\<close>

text \<open>
  An \<open>ObjectId\<close> or \<open>datetime\<close> that can be reached from a value by going through
  values of mappings only (never through a list).
\<close>

fun raw_in_mappings :: "pyval \<Rightarrow> bool" where
  "raw_in_mappings (PDict kvs) = list_ex (\<lambda>kv. raw_in_mappings (snd kv)) kvs"
| "raw_in_mappings (PObjectId s) = True"
| "raw_in_mappings (PDatetime s) = True"
| "raw_in_mappings v = False"

subsection \<open>Concrete inputs\<close>

text \<open>A backend where every call succeeds, and a world in which nothing has happened yet.\<close>

definition demo_env :: env where
  "demo_env =
     \<lparr>psycopg_connect = (\<lambda>target t. Connected),
      psycopg_execute = (\<lambda>t query. PgRows [[(''n'', PInt 1)]]),
      sqlite3_connect = (\<lambda>target t. Connected),
      sqlite3_execute = (\<lambda>t query. LiteRows [''n''] [[PInt 1]]),
      mongo_client = (\<lambda>target t. None),
      mongo_find = (\<lambda>t query. MongoDocs []),
      current_timestamp = (\<lambda>t. t),
      json_loads_ok = (\<lambda>text. text = ''{}''),
      py_int = (\<lambda>text. if text = ''25'' then Some 25 else if text = ''0'' then Some 0 else None),
      MAX_QUEUE_SIZE = 2\<rparr>"

definition world0 :: world where
  "world0 = \<lparr>ticks = 0, opened_handles = [], closed_handles = [], sleeps = 0\<rparr>"

definition demo_doc :: pyval where
  "demo_doc = PDict [(''_id'', PObjectId ''65f0''),
                     (''meta'', PDict [(''at'', PDatetime ''2024-01-02T03:04:05'')]),
                     (''refs'', PList [PObjectId ''65f1'', PDatetime ''2024-01-02T03:04:05''])]"

definition demo_pg :: PostgresDB where
  "demo_pg = \<lparr>dsn = ''dbname=a'', pg_connection = None, reconnects = 0\<rparr>"

definition demo_mongo :: MongoDB where
  "demo_mongo = \<lparr>host = ''h'', mongo_db = ''d'', collection = ''c'', client = None\<rparr>"

definition demo_lite :: SQLiteDB where
  "demo_lite = \<lparr>database = ''a.db'', lite_connection = None\<rparr>"

text \<open>Calling \<open>fetchmany\<close> several times in a row on one adapter, collecting what each
  call returned or raised.\<close>

fun pg_fetch_times ::
  "nat \<Rightarrow> nat \<Rightarrow> env \<Rightarrow> string \<Rightarrow> int \<Rightarrow> PostgresDB \<times> world \<Rightarrow>
     (exn + row list) list \<times> PostgresDB \<times> world" where
  "pg_fetch_times 0 fuel E query sz s = ([], s)"
| "pg_fetch_times (Suc k) fuel E query sz s =
     (case pg_fetchmany fuel E query sz s of
        None \<Rightarrow> ([], s)
      | Some (r, s') \<Rightarrow>
          (case pg_fetch_times k fuel E query sz s' of (rs, s'') \<Rightarrow> (r # rs, s'')))"

text \<open>Backends for PostgreSQL: one that refuses every connection, one that accepts
  connections and closes them before each query, one that has closed the connection
  once (at tick 1), one that rejects every query.\<close>

definition down_env :: env where
  "down_env =
     demo_env\<lparr>psycopg_connect := (\<lambda>target t. ConnectOperationalError ''connection refused'')\<rparr>"

definition closing_env :: env where
  "closing_env =
     demo_env\<lparr>psycopg_execute := (\<lambda>t query. PgOperationalError ''the connection is closed'')\<rparr>"


definition denied_env :: env where
  "denied_env =
     demo_env\<lparr>psycopg_execute := (\<lambda>t query. PgProgrammingError ''permission denied'')\<rparr>"

subsection \<open>What a task leaves in the store\<close>

definition result_row :: "store \<Rightarrow> QueryTask \<Rightarrow> int \<Rightarrow> row list \<Rightarrow> query_result_row" where
  "result_row st task is_error result =
     \<lparr>qr_id = next_id (map qr_id (tbl_query_result st)), qr_query_id = qt_query_id task,
      qr_is_error = is_error, qr_stand_name = qt_stand_name task, qr_result_json = result\<rparr>"

text \<open>Between \<open>a\<close> and \<open>a'\<close> exactly one result row was added, the one of the task with the
  given error flag and payload, and the query table is as it was.\<close>

definition wrote_one_row :: "app \<Rightarrow> app \<Rightarrow> QueryTask \<Rightarrow> int \<Rightarrow> row list \<Rightarrow> bool" where
  "wrote_one_row a a' task is_error result =
     (tbl_query_result (internal_db a')
        = tbl_query_result (internal_db a) @ [result_row (internal_db a) task is_error result]
      \<and> tbl_user_query (internal_db a') = tbl_user_query (internal_db a))"

subsection \<open>A window with three relational stands\<close>

definition stand_A :: Stand where
  "stand_A = \<lparr>name = ''A'', vendor = ''postgres'', stand_syntax = SQL, db = Postgres demo_pg,
              checkbox = True\<rparr>"

definition stand_B :: Stand where
  "stand_B = \<lparr>name = ''B'', vendor = ''sqlite'', stand_syntax = SQL, db = SQLite demo_lite,
              checkbox = True\<rparr>"

definition stand_C :: Stand where
  "stand_C = \<lparr>name = ''C'', vendor = ''sqlite'', stand_syntax = SQL, db = SQLite demo_lite,
              checkbox = True\<rparr>"

definition stand_M :: Stand where
  "stand_M = \<lparr>name = ''M'', vendor = ''mongo'', stand_syntax = MONGO, db = Mongo demo_mongo,
              checkbox = True\<rparr>"

definition empty_store :: store where
  "empty_store = \<lparr>tbl_user_query = [], tbl_query_result = []\<rparr>"

definition demo_app :: app where
  "demo_app =
     \<lparr>stands = [(''A'', stand_A), (''B'', stand_B), (''C'', stand_C)],
      q_tasks = [],
      internal_db = empty_store,
      wgui_storage = \<lparr>database = INTERNAL_DB, lite_connection = Some 0\<rparr>,
      fetch_size = ''25'',
      entry = ''SELECT 1'' @ [CHR 0x0A],
      highlight_choice = SQL,
      messages = [],
      outside = open_handle world0\<rparr>"

definition task_for :: "string \<Rightarrow> QueryTask" where
  "task_for stand = \<lparr>qt_stand_name = stand, qt_query_id = 1, qt_query = ''SELECT 1'', qt_size = 25\<rparr>"

subsection \<open>The listing\<close>




definition connected_storage :: SQLiteDB where
  "connected_storage = \<lparr>database = INTERNAL_DB, lite_connection = Some 0\<rparr>"

subsection \<open>Submissions\<close>

text \<open>The task \<open>create_tasks\<close> builds for one stand.\<close>

definition new_task :: "int \<Rightarrow> string \<Rightarrow> int \<Rightarrow> string \<Rightarrow> QueryTask" where
  "new_task query_id user_query user_fetch_size stand_name =
     \<lparr>qt_stand_name = stand_name, qt_query_id = query_id, qt_query = user_query,
      qt_size = user_fetch_size\<rparr>"

text \<open>The free places of the queue.\<close>

definition room :: "env \<Rightarrow> app \<Rightarrow> nat" where
  "room E a = nat (MAX_QUEUE_SIZE E - int (length (q_tasks a)))"

text \<open>The id \<open>save_query\<close> gives the next query, and the row it inserts.\<close>

definition new_query_id :: "app \<Rightarrow> int" where
  "new_query_id a = next_id (map uq_id (tbl_user_query (internal_db a)))"

definition new_query_row :: "env \<Rightarrow> app \<Rightarrow> string \<Rightarrow> int \<Rightarrow> user_query_row" where
  "new_query_row E a user_query stands_number =
     \<lparr>uq_id = new_query_id a, uq_stands_number = stands_number,
      uq_syntax = highlight_choice a,
      uq_created_at = current_timestamp E (ticks (outside a)), uq_content = user_query\<rparr>"

text \<open>The window with one unrelated task waiting in the queue.\<close>

definition unrelated_task :: QueryTask where
  "unrelated_task = \<lparr>qt_stand_name = ''B'', qt_query_id = 0, qt_query = ''select 0'', qt_size = 5\<rparr>"

definition busy_app :: app where
  "busy_app = demo_app\<lparr>q_tasks := [unrelated_task]\<rparr>"

subsection \<open>Validation\<close>

text \<open>The registry as \<open>create_stands\<close> builds it: a dict (distinct keys) whose
  stands carry their key as name.\<close>

definition registry_ok :: "(string \<times> Stand) list \<Rightarrow> bool" where
  "registry_ok sts = (distinct (map fst sts) \<and> list_all (\<lambda>ks. name (snd ks) = fst ks) sts)"

text \<open>The stands whose checkbox is set.\<close>

definition selected :: "app \<Rightarrow> Stand list" where
  "selected a = filter checkbox (map snd (stands a))"

text \<open>The limit entry is empty, is not an integer, or is an integer below 1.\<close>

definition limit_rejected :: "env \<Rightarrow> app \<Rightarrow> bool" where
  "limit_rejected E a =
     (fetch_size a = [] \<or> (case py_int E (fetch_size a) of None \<Rightarrow> True | Some n \<Rightarrow> n < 1))"

text \<open>
  The statement classes the specification forbids for relational syntax: ignoring
  leading whitespace and case, the text begins with one of these statement keywords.
  The first word of a text is what stands between its leading whitespace and the next
  whitespace character.
\<close>

definition first_word :: "string \<Rightarrow> string" where
  "first_word text = takeWhile (\<lambda>c. \<not> py_isspace c) (dropWhile py_isspace text)"

definition forbidden_keywords :: "string list" where
  "forbidden_keywords =
     [''insert'', ''update'', ''delete'', ''drop'', ''alter'', ''create'', ''comment'',
      ''truncate'']"

definition begins_with_forbidden_statement :: "string \<Rightarrow> bool" where
  "begins_with_forbidden_statement text =
     (casefold (first_word text) \<in> set forbidden_keywords)"

text \<open>
  The ways a submission fails validation, as the specification lists them: the limit
  is refused, no stand is selected, the selected stands have both syntax classes, the
  chosen syntax is not the one of the selected stands, the relational text begins with
  a forbidden statement, or the document filter is not accepted by \<open>json.loads\<close>.
\<close>

definition fails_validation :: "env \<Rightarrow> app \<Rightarrow> bool" where
  "fails_validation E a =
     (limit_rejected E a
      \<or> selected a = []
      \<or> (SQL \<in> stand_syntax ` set (selected a) \<and> MONGO \<in> stand_syntax ` set (selected a))
      \<or> highlight_choice a \<notin> stand_syntax ` set (selected a)
      \<or> (highlight_choice a = SQL \<and> begins_with_forbidden_statement (entry a))
      \<or> (highlight_choice a = MONGO \<and> \<not> json_loads_ok E (strip (entry a))))"

text \<open>Submissions that fail: stand A relational and stand B document both selected,
  a delete statement, and a limit of 0.\<close>

definition mixed_app :: app where
  "mixed_app = demo_app\<lparr>stands := [(''A'', stand_A), (''B'', stand_M\<lparr>name := ''B''\<rparr>)]\<rparr>"

definition delete_app :: app where
  "delete_app = demo_app\<lparr>entry := ''DELETE FROM t'' @ [CHR 0x0A]\<rparr>"

definition zero_limit_app :: app where
  "zero_limit_app = demo_app\<lparr>fetch_size := ''0''\<rparr>"

text \<open>A delete statement whose keyword is followed by a line break, as typed into the
  multi-line query field, and the window holding it; a queue bound that leaves room.\<close>

definition delete_newline :: string where
  "delete_newline = ''DELETE'' @ [CHR 0x0A] @ ''FROM t''"

definition delete_newline_app :: app where
  "delete_newline_app = demo_app\<lparr>entry := delete_newline @ [CHR 0x0A]\<rparr>"

definition roomy_env :: env where
  "roomy_env = demo_env\<lparr>MAX_QUEUE_SIZE := 50\<rparr>"

text \<open>More backends for PostgreSQL: one whose every query fails with an exception of
  another class (a \<open>DataError\<close>), one that has closed the connection twice (at ticks
  1 and 3), one that has closed it once and then refuses the new connection.\<close>

definition div_zero_env :: env where
  "div_zero_env = demo_env\<lparr>psycopg_execute := (\<lambda>t query. PgOtherError ''division by zero'')\<rparr>"



text \<open>A backend for PostgreSQL whose query returns a timestamp, and two tasks for
  stand A.\<close>

definition now_env :: env where
  "now_env =
     demo_env\<lparr>psycopg_execute :=
       (\<lambda>t query. PgRows [[(''now'', PDatetime ''2024-01-02T03:04:05'')]])\<rparr>"

definition select_now :: QueryTask where
  "select_now = \<lparr>qt_stand_name = ''A'', qt_query_id = 1, qt_query = ''select now()'', qt_size = 25\<rparr>"

definition select_div :: QueryTask where
  "select_div = \<lparr>qt_stand_name = ''A'', qt_query_id = 1, qt_query = ''select 1/0'', qt_size = 25\<rparr>"

text \<open>What a run of \<open>execute_query\<close> raised or returned, and the result rows it left.\<close>

definition outcome_and_rows ::
  "((exn + unit) \<times> app) option \<Rightarrow> ((exn + unit) \<times> query_result_row list) option" where
  "outcome_and_rows r = map_option (\<lambda>(x, a). (x, tbl_query_result (internal_db a))) r"

subsection \<open>The pivot\<close>

text \<open>A result that is exactly one record with exactly one field.\<close>

definition single_field_record :: "row list \<Rightarrow> bool" where
  "single_field_record recs = (case recs of [r] \<Rightarrow> length r = 1 | _ \<Rightarrow> False)"

text \<open>Every stand's result is exactly one record with exactly one field.\<close>

definition pivot_shape :: "(string \<times> row list) list \<Rightarrow> bool" where
  "pivot_shape results = list_all (\<lambda>sr. single_field_record (snd sr)) results"

text \<open>The pivot line of a stand: its name and the value of the first field of its first
  record.\<close>

definition scalar_of :: "string \<times> row list \<Rightarrow> string \<times> pyval" where
  "scalar_of sr = (fst sr, snd (hd (hd (snd sr))))"

text \<open>Two result sets whose first stand has a single one-field record while the second
  has no record, or two records of two fields; and a store holding the first.\<close>

definition results_one_empty :: "(string \<times> row list) list" where
  "results_one_empty = [(''A'', [[(''name'', PStr ''x'')]]), (''B'', [])]"

definition results_one_wide :: "(string \<times> row list) list" where
  "results_one_wide =
     [(''A'', [[(''n'', PInt 1)]]),
      (''B'', [[(''a'', PInt 1), (''b'', PInt 2)], [(''a'', PInt 3), (''b'', PInt 4)]])]"

definition store_one_empty :: store where
  "store_one_empty =
     \<lparr>tbl_user_query =
        [\<lparr>uq_id = 1, uq_stands_number = 2, uq_syntax = SQL, uq_created_at = 10,
          uq_content = ''select name from t where id = 1''\<rparr>],
      tbl_query_result =
        [\<lparr>qr_id = 1, qr_query_id = 1, qr_is_error = 0, qr_stand_name = ''A'',
          qr_result_json = [[(''name'', PStr ''x'')]]\<rparr>,
         \<lparr>qr_id = 2, qr_query_id = 1, qr_is_error = 0, qr_stand_name = ''B'',
          qr_result_json = []\<rparr>]\<rparr>"

section \<open>Unfolding the concrete inputs\<close>

lemmas demo_simps = demo_app_def stand_A_def stand_B_def stand_C_def demo_pg_def demo_lite_def
  task_for_def world0_def open_handle_def tick_def demo_env_def down_env_def denied_env_def
  INTERNAL_DB_def empty_store_def

lemmas text_simps = strip_def py_isspace_def whitespace_def casefold_def casefold_char_def
  startswith_def sql_statement_check_def

section \<open>create_tasks: enqueueing\<close>

lemma enqueue_all:
  "length names \<le> room E a \<Longrightarrow>
   enqueue_tasks E qid uq fs names a
     = Inr (a\<lparr>q_tasks := q_tasks a @ map (new_task qid uq fs) names\<rparr>)"
proof (induction names arbitrary: a)
  case Nil
  then show ?case by simp
next
  case (Cons n ns)
  let ?a = "a\<lparr>q_tasks := q_tasks a @ [new_task qid uq fs n]\<rparr>"
  have lt: "int (length (q_tasks a)) < MAX_QUEUE_SIZE E"
    using Cons.prems by (simp add: room_def)
  have "length ns \<le> room E ?a" using Cons.prems by (simp add: room_def)
  from Cons.IH [OF this] lt show ?case by (simp add: new_task_def)
qed

lemma enqueue_cut:
  "room E a < length names \<Longrightarrow> mark_incomplete (wgui_storage a) qid (internal_db a) = Inr st \<Longrightarrow>
   enqueue_tasks E qid uq fs names a
     = Inr (a\<lparr>q_tasks := q_tasks a @ map (new_task qid uq fs) (take (room E a) names),
             internal_db := st,
             messages := messages a @ [Info_queue_full]\<rparr>)"
proof (induction names arbitrary: a)
  case Nil
  then show ?case by simp
next
  case (Cons n ns)
  show ?case
  proof (cases "int (length (q_tasks a)) < MAX_QUEUE_SIZE E")
    case True
    let ?a = "a\<lparr>q_tasks := q_tasks a @ [new_task qid uq fs n]\<rparr>"
    have r: "room E a = Suc (room E ?a)" using True by (simp add: room_def)
    have "room E ?a < length ns" using Cons.prems(1) r by simp
    moreover have "mark_incomplete (wgui_storage ?a) qid (internal_db ?a) = Inr st"
      using Cons.prems(2) by simp
    ultimately have eq: "enqueue_tasks E qid uq fs ns ?a
        = Inr (?a\<lparr>q_tasks := q_tasks ?a @ map (new_task qid uq fs) (take (room E ?a) ns),
             internal_db := st, messages := messages ?a @ [Info_queue_full]\<rparr>)"
      using Cons.IH [of ?a] by blast
    show ?thesis using True eq r by (simp add: new_task_def)
  next
    case False
    then have r: "room E a = 0" by (simp add: room_def)
    show ?thesis using False r Cons.prems(2) by simp
  qed
qed

lemma next_id_above: "i \<in> set ids \<Longrightarrow> i < next_id ids"
  by (induction ids) (auto simp: next_id_def)

lemma mark_incomplete_new_row:
  assumes "lite_connection self \<noteq> None"
    and "uq_id r = next_id (map uq_id (tbl_user_query st))"
  shows "mark_incomplete self (next_id (map uq_id (tbl_user_query st)))
           (st\<lparr>tbl_user_query := tbl_user_query st @ [r]\<rparr>)
         = Inr (st\<lparr>tbl_user_query := tbl_user_query st @ [r\<lparr>uq_stands_number := - 1\<rparr>]\<rparr>)"
proof -
  let ?rows = "tbl_user_query st"
  have "\<And>x. x \<in> set ?rows \<Longrightarrow> uq_id x \<noteq> next_id (map uq_id ?rows)"
    using next_id_above [of _ "map uq_id ?rows"] by force
  then have "map (\<lambda>x. if uq_id x = next_id (map uq_id ?rows)
                       then x\<lparr>uq_stands_number := - 1\<rparr> else x) ?rows = ?rows"
    by (simp add: map_idI)
  then show ?thesis using assms by (simp add: mark_incomplete_def)
qed

text \<open>
  Claim C2. Take a submission that passes validation: a limit \<open>fs\<close> of at least 1, the
  selected stands \<open>names\<close> (not empty), the accepted query text \<open>uq\<close>, and a connected
  store. \<open>create_tasks\<close> inserts the query row and then, when the queue has room for
  fewer tasks than there are selected stands, enqueues tasks for the first \<open>room\<close>
  stands only, behind the tasks already queued (which stay), sets the stand count of
  the new query row to -1 and shows the queue-full message. When there is room for
  all, it enqueues one task per stand and the stand count stays their number.
\<close>

theorem create_tasks_stops_at_full_queue:
  assumes "get_fetch_size E a = (fs, ms1)" "1 \<le> fs"
    and "selected_names a = names" "names \<noteq> []"
    and "get_user_entry E a names = Inr (uq, ms2)" "uq \<noteq> []"
    and "lite_connection (wgui_storage a) \<noteq> None"
  shows
    "(room E a < length names \<longrightarrow>
        create_tasks E a
          = Inr (a\<lparr>q_tasks := q_tasks a
                       @ map (new_task (new_query_id a) uq fs) (take (room E a) names),
                   internal_db := (internal_db a)
                     \<lparr>tbl_user_query := tbl_user_query (internal_db a)
                                          @ [new_query_row E a uq (- 1)]\<rparr>,
                   messages := messages a @ ms1 @ ms2 @ [Info_queue_full]\<rparr>))
     \<and> (length names \<le> room E a \<longrightarrow>
        create_tasks E a
          = Inr (a\<lparr>q_tasks := q_tasks a @ map (new_task (new_query_id a) uq fs) names,
                   internal_db := (internal_db a)
                     \<lparr>tbl_user_query := tbl_user_query (internal_db a)
                                          @ [new_query_row E a uq (int (length names))]\<rparr>,
                   messages := messages a @ ms1 @ ms2\<rparr>))"
proof -
  let ?st = "(internal_db a)\<lparr>tbl_user_query := tbl_user_query (internal_db a)
                                          @ [new_query_row E a uq (int (length names))]\<rparr>"
  let ?a1 = "a\<lparr>internal_db := ?st, messages := messages a @ ms1 @ ms2\<rparr>"
  have sq: "save_query (wgui_storage a) (current_timestamp E (ticks (outside a)))
              (highlight_choice a) uq (int (length names)) (internal_db a)
            = Inr (new_query_id a, ?st)"
    using assms(7) by (simp add: save_query_def new_query_id_def new_query_row_def Let_def)
  have ct: "create_tasks E a = enqueue_tasks E (new_query_id a) uq fs names ?a1"
    using assms(1-6) sq by (simp add: create_tasks_def Let_def)
  have rm: "room E ?a1 = room E a" by (simp add: room_def)
  have mi: "mark_incomplete (wgui_storage ?a1) (new_query_id a) (internal_db ?a1)
            = Inr ((internal_db a)\<lparr>tbl_user_query := tbl_user_query (internal_db a)
                                          @ [new_query_row E a uq (- 1)]\<rparr>)"
    using mark_incomplete_new_row [of "wgui_storage a"
            "new_query_row E a uq (int (length names))" "internal_db a"] assms(7)
    by (simp add: new_query_id_def new_query_row_def)
  have cut: "room E a < length names \<Longrightarrow> ?thesis"
    using enqueue_cut [of E ?a1 names "new_query_id a" _ uq fs, OF _ mi] ct rm by simp
  have all: "length names \<le> room E a \<Longrightarrow> ?thesis"
    using enqueue_all [of names E ?a1 "new_query_id a" uq fs] ct rm by simp
  show ?thesis using cut all by linarith
qed


lemma busy_fetch_size: "get_fetch_size demo_env busy_app = (25, [])"
  by (simp add: get_fetch_size_def is_positive_int_def busy_app_def demo_app_def demo_env_def)

lemma busy_names: "selected_names busy_app = [''A'', ''B'', ''C'']"
  by (simp add: selected_names_def busy_app_def demo_app_def stand_A_def stand_B_def stand_C_def)

lemma demo_strip: "strip (''SELECT 1'' @ [CHR 0x0A]) = ''SELECT 1''"
  by (simp add: text_simps)

lemma demo_syntaxes:
  "selected_syntaxes (stands demo_app) [''A'', ''B'', ''C''] = Some [SQL, SQL, SQL]"
  by (simp add: selected_syntaxes_def demo_app_def stand_A_def stand_B_def stand_C_def)

lemma select_1_passes: "sql_statement_check ''SELECT 1'' = None"
  by (simp add: text_simps)

lemma select_1_valid:
  "is_valid_entry demo_env (stands demo_app) SQL ''SELECT 1'' [''A'', ''B'', ''C'']
   = Inr (True, [])"
  by (simp add: is_valid_entry_def demo_syntaxes select_1_passes)

lemma busy_entry: "get_user_entry demo_env busy_app [''A'', ''B'', ''C''] = Inr (''SELECT 1'', [])"
proof -
  have "strip (entry busy_app) = ''SELECT 1''"
    using demo_strip by (simp add: busy_app_def demo_app_def)
  moreover have "stands busy_app = stands demo_app" "highlight_choice busy_app = SQL"
    by (simp_all add: busy_app_def demo_app_def)
  ultimately show ?thesis
    using select_1_valid by (simp add: get_user_entry_def)
qed

theorem create_tasks_stops_at_full_queue_witness:
  "create_tasks demo_env busy_app
     = Inr (busy_app
          \<lparr>q_tasks := [unrelated_task,
                       \<lparr>qt_stand_name = ''A'', qt_query_id = 1, qt_query = ''SELECT 1'',
                        qt_size = 25\<rparr>],
           internal_db := \<lparr>tbl_user_query =
                              [\<lparr>uq_id = 1, uq_stands_number = - 1, uq_syntax = SQL,
                                uq_created_at = 1, uq_content = ''SELECT 1''\<rparr>],
                            tbl_query_result = []\<rparr>,
           messages := [Info_queue_full]\<rparr>)"
proof -
  have conn: "lite_connection (wgui_storage busy_app) \<noteq> None"
    by (simp add: busy_app_def demo_app_def)
  have room1: "room demo_env busy_app = 1"
    by (simp add: room_def busy_app_def demo_env_def)
  have cut: "room demo_env busy_app < length [''A'', ''B'', ''C'']"
    using room1 by simp
  show ?thesis
    using create_tasks_stops_at_full_queue [OF busy_fetch_size _ busy_names _ busy_entry _ conn] cut room1
    by (simp add: new_task_def new_query_id_def new_query_row_def next_id_def busy_app_def
          demo_app_def empty_store_def demo_env_def open_handle_def world0_def)
qed

section \<open>create_tasks: validation\<close>

lemma those_map_Some:
  "(\<And>x. x \<in> set xs \<Longrightarrow> f x = Some (g x)) \<Longrightarrow> those (map f xs) = Some (map g xs)"
  by (induction xs) simp_all

lemma registry_lookup:
  assumes "registry_ok sts" "s \<in> set (map snd sts)"
  shows "map_of sts (name s) = Some s"
proof -
  from assms(2) obtain k where ks: "(k, s) \<in> set sts" by auto
  then have "name s = k" using assms(1) by (auto simp: registry_ok_def list_all_iff)
  moreover have "map_of sts k = Some s" using ks assms(1) by (simp add: registry_ok_def)
  ultimately show ?thesis by simp
qed

lemma selected_syntaxes_registry:
  assumes "registry_ok (stands a)"
  shows "selected_syntaxes (stands a) (selected_names a) = Some (map stand_syntax (selected a))"
proof -
  have "\<And>s. s \<in> set (selected a) \<Longrightarrow>
          map_option stand_syntax (map_of (stands a) (name s)) = Some (stand_syntax s)"
    using registry_lookup [OF assms] by (simp add: selected_def)
  then show ?thesis
    unfolding selected_syntaxes_def selected_names_def selected_def [symmetric] map_map comp_def
    by (rule those_map_Some)
qed

lemma mixed_card:
  fixes sx :: "Syntax list"
  assumes "SQL \<in> set sx" "MONGO \<in> set sx"
  shows "1 < card (set sx)"
proof -
  have "{SQL, MONGO} \<subseteq> set sx" using assms by simp
  then have "card {SQL, MONGO} \<le> card (set sx)" by (intro card_mono) simp_all
  moreover have "card {SQL, MONGO} = 2" by simp
  ultimately show ?thesis by linarith
qed

lemma is_valid_entry_cases:
  assumes "selected_syntaxes sts names = Some sx"
  shows "(\<exists>m. is_valid_entry E sts ch ue names = Inr (False, [m]))
         \<or> (is_valid_entry E sts ch ue names = Inr (True, []) \<and> ue \<noteq> []
            \<and> \<not> 1 < card (set sx) \<and> ch \<in> set sx
            \<and> (ch = SQL \<longrightarrow> sql_statement_check ue = None)
            \<and> (ch = MONGO \<longrightarrow> json_loads_ok E ue))"
  using assms by (auto simp: is_valid_entry_def split: Syntax.splits option.splits)

lemma get_fetch_size_cases:
  "(limit_rejected E a \<and> (\<exists>m. get_fetch_size E a = (- 1, [m])))
   \<or> (\<not> limit_rejected E a \<and> (\<exists>n. 1 \<le> n \<and> get_fetch_size E a = (n, [])))"
  by (auto simp: get_fetch_size_def limit_rejected_def is_positive_int_def Let_def
           split: option.splits)

text \<open>
  What \<open>create_tasks\<close> does for the submissions its own checks refuse: it returns at
  once having shown one error message, and nothing else has changed (no query row, no
  task, no adapter touched). The statement check here is the one of the code.
\<close>

lemma create_tasks_rejects_what_checks_refuse:
  assumes "registry_ok (stands a)"
    and "limit_rejected E a
      \<or> selected a = []
      \<or> (SQL \<in> stand_syntax ` set (selected a) \<and> MONGO \<in> stand_syntax ` set (selected a))
      \<or> highlight_choice a \<notin> stand_syntax ` set (selected a)
      \<or> (highlight_choice a = SQL \<and> sql_statement_check (strip (entry a)) \<noteq> None)
      \<or> (highlight_choice a = MONGO \<and> \<not> json_loads_ok E (strip (entry a)))"
  shows "\<exists>m. create_tasks E a = Inr (a\<lparr>messages := messages a @ [m]\<rparr>)"
proof -
  consider (limit) m where "get_fetch_size E a = (- 1, [m])"
    | (ok) n where "\<not> limit_rejected E a" "1 \<le> n" "get_fetch_size E a = (n, [])"
    using get_fetch_size_cases [of E a] by blast
  then show ?thesis
  proof cases
    case limit
    then have "create_tasks E a = Inr (a\<lparr>messages := messages a @ [m]\<rparr>)"
      by (simp add: create_tasks_def)
    then show ?thesis by blast
  next
    case ok
    show ?thesis
    proof (cases "selected a = []")
      case True
      then have "selected_names a = []" by (simp add: selected_names_def selected_def)
      then have "create_tasks E a = Inr (a\<lparr>messages := messages a @ [Error_select_stands]\<rparr>)"
        using ok by (simp add: create_tasks_def)
      then show ?thesis by blast
    next
      case False
      then have ne: "selected_names a \<noteq> []" by (simp add: selected_names_def selected_def)
      let ?sx = "map stand_syntax (selected a)"
      note sx = selected_syntaxes_registry [OF assms(1)]
      have bad: "(SQL \<in> set ?sx \<and> MONGO \<in> set ?sx) \<or> highlight_choice a \<notin> set ?sx
          \<or> (highlight_choice a = SQL \<and> sql_statement_check (strip (entry a)) \<noteq> None)
          \<or> (highlight_choice a = MONGO \<and> \<not> json_loads_ok E (strip (entry a)))"
        using assms(2) ok(1) False by simp
      from is_valid_entry_cases [OF sx, of E "highlight_choice a" "strip (entry a)"] bad mixed_card [of ?sx]
      obtain m where "is_valid_entry E (stands a) (highlight_choice a) (strip (entry a))
                        (selected_names a) = Inr (False, [m])"
        by blast
      then have "get_user_entry E a (selected_names a) = Inr ([], [m])"
        by (simp add: get_user_entry_def)
      then have "create_tasks E a = Inr (a\<lparr>messages := messages a @ [m]\<rparr>)"
        using ok ne by (simp add: create_tasks_def)
      then show ?thesis by blast
    qed
  qed
qed


text \<open>Three submissions the checks refuse: stand A relational and stand B document both
  selected, a delete statement followed by a space, and a limit of 0.\<close>

lemma demo_registry_ok: "registry_ok (stands demo_app)"
  by (simp add: registry_ok_def demo_app_def stand_A_def stand_B_def stand_C_def)

lemma create_tasks_rejects_examples:
  "create_tasks demo_env mixed_app = Inr (mixed_app\<lparr>messages := [Error_mixed_syntaxes]\<rparr>)
   \<and> (\<exists>m. create_tasks demo_env delete_app = Inr (delete_app\<lparr>messages := [m]\<rparr>))
   \<and> (\<exists>m. create_tasks demo_env zero_limit_app = Inr (zero_limit_app\<lparr>messages := [m]\<rparr>))"
proof -
  have r2: "registry_ok (stands delete_app)"
    using demo_registry_ok by (simp add: delete_app_def)
  have "strip (entry delete_app) = ''DELETE FROM t''"
    by (simp add: delete_app_def demo_app_def text_simps)
  then have f2: "highlight_choice delete_app = SQL
      \<and> sql_statement_check (strip (entry delete_app)) \<noteq> None"
    by (simp add: delete_app_def demo_app_def text_simps)
  have r3: "registry_ok (stands zero_limit_app)"
    using demo_registry_ok by (simp add: zero_limit_app_def)
  have f3: "limit_rejected demo_env zero_limit_app"
    by (simp add: limit_rejected_def zero_limit_app_def demo_app_def demo_env_def)
  have m0: "messages mixed_app = []" "messages delete_app = []" "messages zero_limit_app = []"
    by (simp_all add: mixed_app_def delete_app_def zero_limit_app_def demo_app_def)
  have e1: "get_fetch_size demo_env mixed_app = (25, [])"
    by (simp add: get_fetch_size_def is_positive_int_def mixed_app_def demo_app_def demo_env_def)
  have e2: "selected_names mixed_app = [''A'', ''B'']"
    by (simp add: selected_names_def mixed_app_def demo_app_def stand_A_def stand_M_def)
  have e3: "selected_syntaxes (stands mixed_app) [''A'', ''B''] = Some [SQL, MONGO]"
    by (simp add: selected_syntaxes_def mixed_app_def demo_app_def stand_A_def stand_M_def)
  have "strip (entry mixed_app) = ''SELECT 1''"
    by (simp add: mixed_app_def demo_app_def text_simps)
  then have e4: "get_user_entry demo_env mixed_app [''A'', ''B''] = Inr ([], [Error_mixed_syntaxes])"
    using e3 by (simp add: get_user_entry_def is_valid_entry_def)
  have ev: "create_tasks demo_env mixed_app = Inr (mixed_app\<lparr>messages := [Error_mixed_syntaxes]\<rparr>)"
    using e1 e2 e4 m0 by (simp add: create_tasks_def)
  show ?thesis
    using create_tasks_rejects_what_checks_refuse [OF r2, of demo_env]
      create_tasks_rejects_what_checks_refuse [OF r3, of demo_env] f2 f3 m0 ev
    by simp
qed

lemma delete_newline_first_word: "casefold (first_word (delete_newline @ [CHR 0x0A])) = ''delete''"
  by (simp add: first_word_def delete_newline_def text_simps)

lemma delete_newline_forbidden: "begins_with_forbidden_statement (delete_newline @ [CHR 0x0A])"
  by (simp add: begins_with_forbidden_statement_def delete_newline_first_word
        forbidden_keywords_def)

lemma delete_newline_passes: "sql_statement_check delete_newline = None"
  by (simp add: delete_newline_def text_simps)

lemma delete_newline_strip: "strip (delete_newline @ [CHR 0x0A]) = delete_newline"
  by (simp add: delete_newline_def text_simps)

lemma delete_newline_valid:
  "is_valid_entry E (stands demo_app) SQL delete_newline [''A'', ''B'', ''C''] = Inr (True, [])"
  using delete_newline_passes
  by (simp add: is_valid_entry_def demo_syntaxes delete_newline_def)

lemma delete_newline_entry:
  "get_user_entry E delete_newline_app [''A'', ''B'', ''C''] = Inr (delete_newline, [])"
  using delete_newline_valid [of E] delete_newline_strip
  by (simp add: get_user_entry_def delete_newline_app_def demo_app_def)


lemma delete_newline_fetch_size: "get_fetch_size roomy_env delete_newline_app = (25, [])"
  by (simp add: get_fetch_size_def is_positive_int_def delete_newline_app_def demo_app_def
        roomy_env_def demo_env_def)

lemma delete_newline_names: "selected_names delete_newline_app = [''A'', ''B'', ''C'']"
  by (simp add: selected_names_def delete_newline_app_def demo_app_def stand_A_def stand_B_def
        stand_C_def)

text \<open>
  Claim C3 (where the code departs from it). A relational submission whose text is a
  delete statement with a line break after the keyword fails validation as the
  specification defines it, yet \<open>create_tasks\<close> shows no error, inserts the query row
  with stand count 3 and enqueues a task for each of the three selected stands. For
  the other five kinds of failure, and for a forbidden keyword followed by a space, the
  lemma above shows that nothing is persisted.
\<close>

theorem create_tasks_accepts_delete_statement:
  "fails_validation roomy_env delete_newline_app
   \<and> create_tasks roomy_env delete_newline_app
     = Inr (delete_newline_app
          \<lparr>q_tasks := [\<lparr>qt_stand_name = ''A'', qt_query_id = 1, qt_query = delete_newline,
                        qt_size = 25\<rparr>,
                       \<lparr>qt_stand_name = ''B'', qt_query_id = 1, qt_query = delete_newline,
                        qt_size = 25\<rparr>,
                       \<lparr>qt_stand_name = ''C'', qt_query_id = 1, qt_query = delete_newline,
                        qt_size = 25\<rparr>],
           internal_db := \<lparr>tbl_user_query =
                              [\<lparr>uq_id = 1, uq_stands_number = 3, uq_syntax = SQL,
                                uq_created_at = 1, uq_content = delete_newline\<rparr>],
                            tbl_query_result = []\<rparr>\<rparr>)"
proof -
  have f: "fails_validation roomy_env delete_newline_app"
    using delete_newline_forbidden
    by (simp add: fails_validation_def delete_newline_app_def demo_app_def)
  have sq: "save_query (wgui_storage delete_newline_app)
              (current_timestamp roomy_env (ticks (outside delete_newline_app)))
              (highlight_choice delete_newline_app) delete_newline 3
              (internal_db delete_newline_app)
            = Inr (1, \<lparr>tbl_user_query =
                              [\<lparr>uq_id = 1, uq_stands_number = 3, uq_syntax = SQL,
                                uq_created_at = 1, uq_content = delete_newline\<rparr>],
                            tbl_query_result = []\<rparr>)"
    by (simp add: save_query_def delete_newline_app_def demo_app_def empty_store_def
          next_id_def roomy_env_def demo_env_def open_handle_def world0_def)
  have rm: "MAX_QUEUE_SIZE roomy_env = 50" by (simp add: roomy_env_def)
  have q0: "q_tasks delete_newline_app = []" "messages delete_newline_app = []"
    by (simp_all add: delete_newline_app_def demo_app_def)
  have c: "create_tasks roomy_env delete_newline_app
     = Inr (delete_newline_app
          \<lparr>q_tasks := [\<lparr>qt_stand_name = ''A'', qt_query_id = 1, qt_query = delete_newline,
                        qt_size = 25\<rparr>,
                       \<lparr>qt_stand_name = ''B'', qt_query_id = 1, qt_query = delete_newline,
                        qt_size = 25\<rparr>,
                       \<lparr>qt_stand_name = ''C'', qt_query_id = 1, qt_query = delete_newline,
                        qt_size = 25\<rparr>],
           internal_db := \<lparr>tbl_user_query =
                              [\<lparr>uq_id = 1, uq_stands_number = 3, uq_syntax = SQL,
                                uq_created_at = 1, uq_content = delete_newline\<rparr>],
                            tbl_query_result = []\<rparr>\<rparr>)"
    using delete_newline_fetch_size delete_newline_names delete_newline_entry [of roomy_env]
      sq q0 rm
    by (simp add: create_tasks_def delete_newline_def)
  show ?thesis using f c by simp
qed

theorem create_tasks_accepts_delete_statement_witness:
  "highlight_choice delete_newline_app = SQL
   \<and> begins_with_forbidden_statement (entry delete_newline_app)
   \<and> (\<exists>a'. create_tasks roomy_env delete_newline_app = Inr a'
          \<and> map qt_stand_name (q_tasks a') = [''A'', ''B'', ''C'']
          \<and> map uq_stands_number (tbl_user_query (internal_db a')) = [3]
          \<and> messages a' = [])"
  using create_tasks_accepts_delete_statement delete_newline_forbidden
  by (simp add: delete_newline_app_def demo_app_def)

section \<open>The statement check\<close>

text \<open>
  Claim C4 (where the code departs from it). \<open>is_valid_entry\<close> compares the first nine
  characters with each keyword followed by a space. The two examples of the claim
  come out as it says: "DELETE FROM t" is refused, "SELECT 1" is accepted. But a text
  that begins with a delete statement whose keyword is followed by a line break is
  accepted, and \<open>get_user_entry\<close> hands it on for execution.
\<close>

theorem is_valid_entry_misses_keyword_before_newline:
  "begins_with_forbidden_statement delete_newline
   \<and> is_valid_entry demo_env (stands demo_app) SQL delete_newline [''A'', ''B'', ''C'']
       = Inr (True, [])
   \<and> get_user_entry demo_env delete_newline_app [''A'', ''B'', ''C'']
       = Inr (delete_newline, [])
   \<and> begins_with_forbidden_statement ''DELETE FROM t''
   \<and> is_valid_entry demo_env (stands demo_app) SQL ''DELETE FROM t'' [''A'', ''B'', ''C'']
       = Inr (False, [Error_data_editing])
   \<and> \<not> begins_with_forbidden_statement ''SELECT 1''
   \<and> is_valid_entry demo_env (stands demo_app) SQL ''SELECT 1'' [''A'', ''B'', ''C'']
       = Inr (True, [])"
proof -
  have b: "begins_with_forbidden_statement delete_newline"
    by (simp add: begins_with_forbidden_statement_def first_word_def delete_newline_def
          forbidden_keywords_def text_simps)
  have d: "sql_statement_check ''DELETE FROM t'' = Some Error_data_editing"
    by (simp add: text_simps)
  have r: "is_valid_entry demo_env (stands demo_app) SQL ''DELETE FROM t'' [''A'', ''B'', ''C'']
       = Inr (False, [Error_data_editing])"
    using d by (simp add: is_valid_entry_def demo_syntaxes)
  have b2: "begins_with_forbidden_statement ''DELETE FROM t''"
    by (simp add: begins_with_forbidden_statement_def first_word_def forbidden_keywords_def
          text_simps)
  have b3: "\<not> begins_with_forbidden_statement ''SELECT 1''"
    by (simp add: begins_with_forbidden_statement_def first_word_def forbidden_keywords_def
          text_simps)
  show ?thesis
    using b delete_newline_valid [of demo_env] delete_newline_entry [of demo_env] b2 r b3
      select_1_valid
    by simp
qed

section \<open>PostgresDB: reconnecting\<close>

lemma pg_fetchmany_refused:
  assumes "pg_connection d = None" "reconnects d \<le> 3"
    and "psycopg_connect E (dsn d) (ticks w) = ConnectOperationalError e"
  shows "pg_fetchmany (Suc n) E query sz (d, w)
         = Some (Inl (DBError (msg_connect @ e)), d, tick (w\<lparr>sleeps := Suc (sleeps w)\<rparr>))"
  using assms by (simp add: pg_reconnect_def pg_connect_def)

text \<open>The counter after \<open>reconnect\<close>, called as \<open>fetchmany\<close> calls it (without a
  connection): 1 when it succeeded, what it was when it raised.\<close>

lemma pg_reconnect_counter:
  "pg_connection d = None \<Longrightarrow> pg_reconnect E (d, w) = (r, d', w') \<Longrightarrow>
     (r = Inr () \<and> reconnects d' = 1) \<or> (r \<noteq> Inr () \<and> reconnects d' = reconnects d)"
  by (auto simp: pg_reconnect_def pg_connect_def split: if_splits connect_outcome.splits)

lemma down_times:
  "pg_fetch_times k (Suc n) down_env query sz (demo_pg, w)
   = (replicate k (Inl (DBError (msg_connect @ ''connection refused''))), demo_pg,
      w\<lparr>ticks := ticks w + k, sleeps := sleeps w + k\<rparr>)"
proof (induction k arbitrary: w)
  case 0
  then show ?case by simp
next
  case (Suc k)
  have step: "pg_fetchmany (Suc n) down_env query sz (demo_pg, w)
      = Some (Inl (DBError (msg_connect @ ''connection refused'')), demo_pg,
              tick (w\<lparr>sleeps := Suc (sleeps w)\<rparr>))"
    by (rule pg_fetchmany_refused) (simp_all add: demo_pg_def down_env_def)
  show ?case
    using step Suc.IH [of "tick (w\<lparr>sleeps := Suc (sleeps w)\<rparr>)"]
    by (simp add: tick_def del: pg_fetchmany.simps)
qed

lemma closing_never_returns:
  "reconnects d \<le> 3 \<Longrightarrow> pg_fetchmany n closing_env query sz (d, w) = None"
proof (induction n arbitrary: d w)
  case 0
  then show ?case by simp
next
  case (Suc n)
  show ?case
  proof (cases "pg_connection d")
    case None
    have "pg_reconnect closing_env (d, w)
          = (Inr (), d\<lparr>pg_connection := Some (ticks w), reconnects := 1\<rparr>,
             open_handle (w\<lparr>sleeps := Suc (sleeps w)\<rparr>))"
      using None Suc.prems
      by (simp add: pg_reconnect_def pg_connect_def closing_env_def demo_env_def)
    then show ?thesis using None Suc.IH by simp
  next
    case (Some h)
    have "psycopg_execute closing_env (ticks w) query
          = PgOperationalError ''the connection is closed''"
      by (simp add: closing_env_def)
    then show ?thesis using Some Suc.IH [of "d\<lparr>pg_connection := None\<rparr>"] Suc.prems by simp
  qed
qed

text \<open>
  Claim C5 (what the code does instead). \<open>reconnect\<close> raises its "too many attempts"
  error when the counter exceeds 3, but the counter never does: a failed \<open>connect\<close>
  raises before the increment, and a successful one sets the counter to 0 just before
  it. On a backend that refuses every connection, each of \<open>k\<close> calls of \<open>fetchmany\<close> in a
  row, for any \<open>k\<close>, sleeps once, tries to connect once and raises the connection error
  of \<open>connect\<close>, leaving the counter at 0: no call fails for good. On a backend that
  closes each connection before the query, a single call of \<open>fetchmany\<close> reconnects
  and retries without end: no number of nested calls lets it return or raise (in
  Python the call ends when the interpreter's recursion limit is reached).
\<close>

theorem pg_reconnect_limit_never_reached:
  "pg_fetch_times k (Suc n) down_env query sz (demo_pg, world0)
     = (replicate k (Inl (DBError (msg_connect @ ''connection refused''))), demo_pg,
        world0\<lparr>ticks := k, sleeps := k\<rparr>)
   \<and> pg_fetchmany n closing_env query sz (demo_pg, world0) = None"
  using down_times [of k n query sz world0] closing_never_returns [of demo_pg n query sz world0]
  by (simp add: world0_def demo_pg_def)

section \<open>PostgresDB: a query on a closed connection, and other query errors\<close>









section \<open>make_pivot\<close>

lemma pivot_row_shape:
  "single_field_record (snd sr) \<Longrightarrow> pivot_row sr = Inr (scalar_of sr)"
  by (cases sr rule: pivot_row.cases)
     (auto simp: single_field_record_def scalar_of_def split: list.splits)

lemma pivot_rows_shape:
  "pivot_shape rs \<Longrightarrow> pivot_rows rs = Inr (map scalar_of rs)"
  by (induction rs) (simp_all add: pivot_shape_def pivot_row_shape)

lemma make_pivot_shape:
  assumes "pivot_shape results" "results \<noteq> []"
  shows "make_pivot results = Inr (Some (map scalar_of results))"
proof -
  from assms obtain stand recs rest where r: "results = (stand, recs) # rest"
    by (cases results) auto
  then have "single_field_record recs" using assms(1) by (simp add: pivot_shape_def)
  then obtain r0 where "recs = [r0]" "length r0 = 1"
    by (auto simp: single_field_record_def split: list.splits)
  then show ?thesis
    using pivot_rows_shape [OF assms(1)] r by (simp add: make_pivot_def)
qed

lemma make_pivot_first_only:
  assumes "make_pivot results = Inr (Some p)"
  shows "\<exists>stand recs rest. results = (stand, recs) # rest \<and> single_field_record recs"
proof (cases results)
  case Nil
  then show ?thesis using assms by (simp add: make_pivot_def)
next
  case (Cons sr rest)
  obtain stand recs where sr: "sr = (stand, recs)" by (cases sr)
  have "single_field_record recs"
    using assms Cons sr
    by (auto simp: make_pivot_def single_field_record_def split: list.splits if_splits)
  then show ?thesis using Cons sr by blast
qed

text \<open>
  Claim C7 (where the code departs from it). When every stand's result is one
  one-field record, \<open>make_pivot\<close> gives the two-column table (lemma
  \<open>make_pivot_shape\<close>), and it gives a table only if the first stand's result has
  that shape (lemma \<open>make_pivot_first_only\<close>). But it looks at the first stand only.
  When the first stand has one one-field record and another stand has no record, the
  list comprehension raises \<open>IndexError\<close> and \<open>export_result\<close> ends with it instead
  of writing the per-stand tables; when another stand has several records of several
  fields, a pivot is produced from the first field of its first record.
\<close>

theorem make_pivot_checks_first_stand_only:
  "\<not> pivot_shape results_one_empty
   \<and> make_pivot results_one_empty = Inl IndexError
   \<and> export_result connected_storage store_one_empty 1 = Inl IndexError
   \<and> \<not> pivot_shape results_one_wide
   \<and> make_pivot results_one_wide = Inr (Some [(''A'', PInt 1), (''B'', PInt 1)])"
proof -
  have a: "\<not> pivot_shape results_one_empty"
    by (simp add: pivot_shape_def single_field_record_def results_one_empty_def)
  have b: "make_pivot results_one_empty = Inl IndexError"
    by (simp add: make_pivot_def results_one_empty_def)
  have r: "results_by_query_id connected_storage 1 store_one_empty = Inr results_one_empty"
    by (simp add: results_by_query_id_def connected_storage_def store_one_empty_def
          results_one_empty_def)
  have q: "query_by_id connected_storage 1 store_one_empty
           = Inr (Some (SQL, ''select name from t where id = 1''))"
    by (simp add: query_by_id_def connected_storage_def store_one_empty_def)
  have c: "export_result connected_storage store_one_empty 1 = Inl IndexError"
    using r q b by (simp add: export_result_def)
  have d: "\<not> pivot_shape results_one_wide"
    by (simp add: pivot_shape_def single_field_record_def results_one_wide_def)
  have e: "make_pivot results_one_wide = Inr (Some [(''A'', PInt 1), (''B'', PInt 1)])"
    by (simp add: make_pivot_def results_one_wide_def)
  show ?thesis using a b c d e by simp
qed

section \<open>latest_queries\<close>







section \<open>connect and close of the three adapters\<close>

lemma db_connect_connected:
  "handle_of d \<noteq> None \<Longrightarrow> db_connect E (d, w) = (Inr (), d, w)"
  by (cases d) (auto simp: pg_connect_def mongo_connect_def lite_connect_def)

lemma db_connect_gives_handle:
  "db_connect E (d, w) = (Inr u, d', w') \<Longrightarrow> handle_of d' \<noteq> None"
  by (cases d)
     (auto simp: pg_connect_def mongo_connect_def lite_connect_def
           split: if_splits option.splits connect_outcome.splits)

lemma db_close_no_handle: "handle_of (fst (db_close (d, w))) = None"
  by (cases d) (auto simp: pg_close_def mongo_close_def lite_close_def split: option.splits)

lemma db_close_closed: "handle_of d = None \<Longrightarrow> db_close (d, w) = (d, w)"
  by (cases d) (auto simp: pg_close_def mongo_close_def lite_close_def split: option.splits)

lemma db_close_twice: "db_close (db_close (d, w)) = db_close (d, w)"
  using db_close_no_handle [of d w]
    db_close_closed [of "fst (db_close (d, w))" "snd (db_close (d, w))"]
  by simp

text \<open>
  Claim C9. For each of the three adapters: \<open>connect\<close> on an adapter that holds a
  connection returns at once and changes neither the adapter nor the outside world (no
  driver call, no second connection opened); so a \<open>connect\<close> that follows a successful
  \<open>connect\<close> is such a no-op. \<open>close\<close> cannot raise, leaves the adapter without a handle,
  and a second \<open>close\<close> right after the first changes nothing.
\<close>

theorem connect_and_close_idempotent:
  "(handle_of d \<noteq> None \<longrightarrow> db_connect E (d, w) = (Inr (), d, w))
   \<and> (db_connect E (d, w) = (Inr u, d', w') \<longrightarrow> db_connect E (d', w') = (Inr (), d', w'))
   \<and> db_close (db_close (d, w)) = db_close (d, w)
   \<and> handle_of (fst (db_close (d, w))) = None"
  using db_connect_connected db_connect_gives_handle db_close_twice db_close_no_handle
  by blast

theorem connect_and_close_idempotent_witness:
  "db_connect demo_env (Postgres demo_pg, world0)
     = (Inr (), Postgres (demo_pg\<lparr>pg_connection := Some 0\<rparr>), open_handle world0)
   \<and> db_connect demo_env (Postgres (demo_pg\<lparr>pg_connection := Some 0\<rparr>), open_handle world0)
     = (Inr (), Postgres (demo_pg\<lparr>pg_connection := Some 0\<rparr>), open_handle world0)
   \<and> opened_handles (open_handle world0) = [0]
   \<and> db_connect demo_env (Mongo (demo_mongo\<lparr>client := Some 0\<rparr>), open_handle world0)
     = (Inr (), Mongo (demo_mongo\<lparr>client := Some 0\<rparr>), open_handle world0)
   \<and> db_connect demo_env (SQLite (demo_lite\<lparr>lite_connection := Some 0\<rparr>), open_handle world0)
     = (Inr (), SQLite (demo_lite\<lparr>lite_connection := Some 0\<rparr>), open_handle world0)
   \<and> db_close (db_close (SQLite (demo_lite\<lparr>lite_connection := Some 0\<rparr>), open_handle world0))
     = (SQLite demo_lite, close_handle 0 (open_handle world0))"
proof -
  have first: "db_connect demo_env (Postgres demo_pg, world0)
     = (Inr (), Postgres (demo_pg\<lparr>pg_connection := Some 0\<rparr>), open_handle world0)"
    by (simp add: pg_connect_def demo_env_def demo_pg_def world0_def)
  have pg: "handle_of (Postgres (demo_pg\<lparr>pg_connection := Some 0\<rparr>)) \<noteq> None" by simp
  have mg: "handle_of (Mongo (demo_mongo\<lparr>client := Some 0\<rparr>)) \<noteq> None" by simp
  have lt: "handle_of (SQLite (demo_lite\<lparr>lite_connection := Some 0\<rparr>)) \<noteq> None" by simp
  have cl: "db_close (SQLite (demo_lite\<lparr>lite_connection := Some 0\<rparr>), open_handle world0)
     = (SQLite demo_lite, close_handle 0 (open_handle world0))"
    by (simp add: lite_close_def demo_lite_def)
  show ?thesis
    using first pg mg lt cl
      connect_and_close_idempotent [of "Postgres demo_pg" demo_env world0 "()"
             "Postgres (demo_pg\<lparr>pg_connection := Some 0\<rparr>)" "open_handle world0"]
      connect_and_close_idempotent [of "Mongo (demo_mongo\<lparr>client := Some 0\<rparr>)" demo_env
             "open_handle world0"]
      connect_and_close_idempotent [of "SQLite (demo_lite\<lparr>lite_connection := Some 0\<rparr>)" demo_env
             "open_handle world0"]
    by (simp add: open_handle_def world0_def)
qed

section \<open>The document adapter's conversion\<close>

lemma to_serializable_clean: "\<not> raw_in_mappings (to_serializable v)"
  by (induction v rule: to_serializable.induct) (auto simp: list_ex_iff)

lemma mongo_fetchmany_docs:
  assumes "client d \<noteq> None" "json_loads_ok E query"
    and "mongo_find E (ticks w) query = MongoDocs docs"
  shows "mongo_fetchmany E query sz (d, w)
         = (Inr (map to_serializable (take (nat sz) docs)), d, tick w)"
  using assms by (simp add: mongo_fetchmany_def)

text \<open>
  Claim C10. Every document that \<open>MongoDB.fetchmany\<close> returns is \<open>to_serializable\<close> of a
  document of the backend. In the result no \<open>ObjectId\<close> or \<open>datetime\<close> is left that can
  be reached through mapping values alone: they have become their \<open>str()\<close> and
  \<open>isoformat()\<close> texts. A list is returned as it is, whatever it holds, so an \<open>ObjectId\<close>
  or a \<open>datetime\<close> inside an array field is not converted.
\<close>

theorem mongo_fetchmany_converts_through_mappings_only:
  "(client d \<noteq> None \<and> json_loads_ok E query \<and> mongo_find E (ticks w) query = MongoDocs docs
      \<longrightarrow> mongo_fetchmany E query sz (d, w)
            = (Inr (map to_serializable (take (nat sz) docs)), d, tick w))
   \<and> \<not> raw_in_mappings (to_serializable v)
   \<and> to_serializable (PList xs) = PList xs
   \<and> to_serializable (PDict [(k, PList xs)]) = PDict [(k, PList xs)]
   \<and> to_serializable (PDict [(k, PObjectId oid)]) = PDict [(k, PStr oid)]
   \<and> to_serializable (PDict [(k, PDict [(k', PDatetime ts)])])
       = PDict [(k, PDict [(k', PStr ts)])]"
  using mongo_fetchmany_docs to_serializable_clean by simp

theorem mongo_fetchmany_converts_through_mappings_only_witness:
  "mongo_fetchmany (demo_env\<lparr>mongo_find := (\<lambda>t query. MongoDocs [demo_doc])\<rparr>) ''{}'' 25
     (\<lparr>host = ''h'', mongo_db = ''d'', collection = ''c'', client = Some 0\<rparr>, world0)
   = (Inr [PDict [(''_id'', PStr ''65f0''),
                  (''meta'', PDict [(''at'', PStr ''2024-01-02T03:04:05'')]),
                  (''refs'', PList [PObjectId ''65f1'', PDatetime ''2024-01-02T03:04:05''])]],
      \<lparr>host = ''h'', mongo_db = ''d'', collection = ''c'', client = Some 0\<rparr>, tick world0)"
  using mongo_fetchmany_converts_through_mappings_only
          [of "\<lparr>host = ''h'', mongo_db = ''d'', collection = ''c'', client = Some 0\<rparr>"
              "demo_env\<lparr>mongo_find := (\<lambda>t query. MongoDocs [demo_doc])\<rparr>" "''{}''" world0
              "[demo_doc]" 25]
  by (simp add: demo_env_def demo_doc_def)

section \<open>execute_query\<close>

lemma error_result_dumps: "json_dumps_ok (error_result m)"
  by (simp add: json_dumps_ok_def error_result_def)

lemma store_result_ok:
  assumes "\<forall>t. sqlite3_connect E INTERNAL_DB t = Connected" "json_dumps_ok result"
  shows "\<exists>a'. store_result E task is_error result a = (Inr (), a')
              \<and> wrote_one_row a a' task is_error result"
  using assms
  by (simp add: store_result_def lite_connect_def Storage_def save_result_def lite_close_def
        wrote_one_row_def result_row_def)

lemma store_result_type_error:
  assumes "\<forall>t. sqlite3_connect E INTERNAL_DB t = Connected" "\<not> json_dumps_ok result"
  shows "store_result E task is_error result a = (Inl TypeError, a\<lparr>outside := open_handle (outside a)\<rparr>)"
  using assms
  by (simp add: store_result_def lite_connect_def Storage_def save_result_def)

lemma wrote_one_row_set_db:
  "wrote_one_row (set_db key stand d w a) a' task ie res = wrote_one_row a a' task ie res"
  by (simp add: wrote_one_row_def set_db_def)

lemma execute_query_connect_error:
  assumes "map_of (stands a) (qt_stand_name task) = Some stand"
    and "\<forall>t. sqlite3_connect E INTERNAL_DB t = Connected"
    and "db_connect E (db stand, outside a) = (Inl (DBError m), d, w)"
  shows "\<exists>a'. execute_query fuel E task a = Some (Inr (), a')
              \<and> wrote_one_row a a' task 1 (error_result m)"
  using assms(1,3)
    store_result_ok [OF assms(2) error_result_dumps, of task 1 m
      "set_db (qt_stand_name task) stand d w a"]
  by (auto simp: execute_query_def wrote_one_row_set_db)

lemma execute_query_fetch_error:
  assumes "map_of (stands a) (qt_stand_name task) = Some stand"
    and "\<forall>t. sqlite3_connect E INTERNAL_DB t = Connected"
    and "db_connect E (db stand, outside a) = (Inr u, d, w)"
    and "db_fetchmany fuel E (qt_query task) (qt_size task) (d, w)
         = Some (Inl (DBError m), d', w')"
  shows "\<exists>a'. execute_query fuel E task a = Some (Inr (), a')
              \<and> wrote_one_row a a' task 1 (error_result m)"
  using assms(1,3,4)
    store_result_ok [OF assms(2) error_result_dumps, of task 1 m
      "set_db (qt_stand_name task) stand d' w' a"]
  by (auto simp: execute_query_def wrote_one_row_set_db)

lemma execute_query_success:
  assumes "map_of (stands a) (qt_stand_name task) = Some stand"
    and "\<forall>t. sqlite3_connect E INTERNAL_DB t = Connected"
    and "db_connect E (db stand, outside a) = (Inr u, d, w)"
    and "db_fetchmany fuel E (qt_query task) (qt_size task) (d, w)
         = Some (Inr result, d', w')"
    and "json_dumps_ok result"
  shows "\<exists>a'. execute_query fuel E task a = Some (Inr (), a')
              \<and> wrote_one_row a a' task 0 result"
  using assms(1,3,4)
    store_result_ok [OF assms(2,5), of task 0 "set_db (qt_stand_name task) stand d' w' a"]
  by (auto simp: execute_query_def wrote_one_row_set_db)

lemma execute_query_success_unserializable:
  assumes "map_of (stands a) (qt_stand_name task) = Some stand"
    and "\<forall>t. sqlite3_connect E INTERNAL_DB t = Connected"
    and "db_connect E (db stand, outside a) = (Inr u, d, w)"
    and "db_fetchmany fuel E (qt_query task) (qt_size task) (d, w)
         = Some (Inr result, d', w')"
    and "\<not> json_dumps_ok result"
  shows "outcome_and_rows (execute_query fuel E task a)
         = Some (Inl TypeError, tbl_query_result (internal_db a))"
  using assms(1,3,4)
    store_result_type_error [OF assms(2,5), of task 0 "set_db (qt_stand_name task) stand d' w' a"]
  by (auto simp: execute_query_def outcome_and_rows_def set_db_def)

lemma execute_query_other_error:
  assumes "map_of (stands a) (qt_stand_name task) = Some stand"
    and "db_connect E (db stand, outside a) = (Inr u, d, w)"
    and "db_fetchmany fuel E (qt_query task) (qt_size task) (d, w)
         = Some (Inl (OtherError e), d', w')"
  shows "outcome_and_rows (execute_query fuel E task a)
         = Some (Inl (OtherError e), tbl_query_result (internal_db a))"
  using assms by (auto simp: execute_query_def outcome_and_rows_def set_db_def)

lemma execute_query_no_return:
  assumes "map_of (stands a) (qt_stand_name task) = Some stand"
    and "db_connect E (db stand, outside a) = (Inr u, d, w)"
    and "db_fetchmany fuel E (qt_query task) (qt_size task) (d, w) = None"
  shows "execute_query fuel E task a = None"
  using assms by (auto simp: execute_query_def)

lemmas c1_demo = demo_app_def stand_A_def demo_pg_def world0_def open_handle_def tick_def
  demo_env_def now_env_def div_zero_env_def closing_env_def select_now_def select_div_def
  INTERNAL_DB_def empty_store_def pg_connect_def

text \<open>
  Claim C1 (where the code departs from it). The claim holds for the outcomes
  \<open>execute_query\<close> handles, as the lemmas above show: a \<open>DBError\<close> from \<open>connect\<close> or
  \<open>fetchmany\<close> gives one error row, and a result that \<open>json.dumps\<close> can encode gives
  one row with the records. It fails in three ways on a PostgreSQL stand. When the
  query returns a timestamp (\<open>select now()\<close>), \<open>fetchmany\<close> succeeds with a
  \<open>datetime\<close> in the record, \<open>json.dumps\<close> in \<open>save_result\<close> raises \<open>TypeError\<close>, no result
  row is written and the exception leaves the task. When the driver raises an exception
  of a class \<open>fetchmany\<close> does not name (\<open>select 1/0\<close>), it leaves the task and no row
  is written. When the backend closes every connection, \<open>fetchmany\<close> does not return,
  whatever the number of nested calls allowed, and no row is written.
\<close>

theorem execute_query_loses_result_row:
  "outcome_and_rows (execute_query 1 now_env select_now demo_app) = Some (Inl TypeError, [])
   \<and> outcome_and_rows (execute_query 1 div_zero_env select_div demo_app)
       = Some (Inl (OtherError ''division by zero''), [])
   \<and> execute_query n closing_env select_now demo_app = None"
proof -
  have sA: "map_of (stands demo_app) ''A'' = Some stand_A" by (simp add: demo_app_def)
  have st: "tbl_query_result (internal_db demo_app) = []"
    by (simp add: demo_app_def empty_store_def)
  have o1: "\<forall>t. sqlite3_connect now_env INTERNAL_DB t = Connected"
    by (simp add: now_env_def demo_env_def)
  have c1: "db_connect now_env (db stand_A, outside demo_app)
      = (Inr (), Postgres (demo_pg\<lparr>pg_connection := Some 1\<rparr>), open_handle (open_handle world0))"
    by (simp add: c1_demo)
  have f1: "db_fetchmany 1 now_env ''select now()'' 25
        (Postgres (demo_pg\<lparr>pg_connection := Some 1\<rparr>), open_handle (open_handle world0))
      = Some (Inr [[(''now'', PDatetime ''2024-01-02T03:04:05'')]],
              Postgres (demo_pg\<lparr>pg_connection := Some 1\<rparr>),
              tick (open_handle (open_handle world0)))"
    by (simp add: c1_demo)
  have j1: "\<not> json_dumps_ok [[(''now'', PDatetime ''2024-01-02T03:04:05'')]]"
    by (simp add: json_dumps_ok_def)
  have r1: "outcome_and_rows (execute_query 1 now_env select_now demo_app) = Some (Inl TypeError, [])"
    using execute_query_success_unserializable [of demo_app select_now stand_A now_env, OF _ o1 _ _ j1]
      sA c1 f1 st by (simp add: select_now_def)
  have c2: "db_connect div_zero_env (db stand_A, outside demo_app)
      = (Inr (), Postgres (demo_pg\<lparr>pg_connection := Some 1\<rparr>), open_handle (open_handle world0))"
    by (simp add: c1_demo)
  have f2: "db_fetchmany 1 div_zero_env ''select 1/0'' 25
        (Postgres (demo_pg\<lparr>pg_connection := Some 1\<rparr>), open_handle (open_handle world0))
      = Some (Inl (OtherError ''division by zero''),
              Postgres (demo_pg\<lparr>pg_connection := Some 1\<rparr>),
              tick (open_handle (open_handle world0)))"
    by (simp add: c1_demo)
  have r2: "outcome_and_rows (execute_query 1 div_zero_env select_div demo_app)
       = Some (Inl (OtherError ''division by zero''), [])"
    using execute_query_other_error [of demo_app select_div stand_A div_zero_env] sA c2 f2 st
    by (simp add: select_div_def)
  have c3: "db_connect closing_env (db stand_A, outside demo_app)
      = (Inr (), Postgres (demo_pg\<lparr>pg_connection := Some 1\<rparr>), open_handle (open_handle world0))"
    by (simp add: c1_demo)
  have f3: "db_fetchmany n closing_env ''select now()'' 25
        (Postgres (demo_pg\<lparr>pg_connection := Some 1\<rparr>), open_handle (open_handle world0)) = None"
    using closing_never_returns [of "demo_pg\<lparr>pg_connection := Some 1\<rparr>" n]
    by (simp add: demo_pg_def)
  have r3: "execute_query n closing_env select_now demo_app = None"
    using execute_query_no_return [of demo_app select_now stand_A closing_env] sA c3 f3
    by (simp add: select_now_def)
  show ?thesis using r1 r2 r3 by simp
qed

end
